theory Spec2Isabelle
  imports Main
begin

section \<open>Win32 values and kernel objects used by ThreadWin\<close>

text \<open>
  The repository wraps Win32 threads. Its methods \<^verbatim>\<open>ThreadWin::CreateThread\<close>,
  \<^verbatim>\<open>ThreadWin::RunProcess\<close>, \<^verbatim>\<open>ThreadWin::StartAllThreads\<close> and
  \<^verbatim>\<open>ThreadWin::ExitThread\<close> as well as \<^verbatim>\<open>WorkerThread::Process\<close> and
  \<^verbatim>\<open>main\<close> are in src/main.cpp; they run on several OS threads at once. The model is
  an interleaving one: every source function is a step function that executes the
  statement at the function's current program point, and a schedule (a list of actions)
  picks which thread of control moves next. One step performs at most one kernel call.

  The Win32 kernel itself is the environment. It is modelled here as far as the code
  uses it: manual-reset events that are \<^emph>\<open>named\<close> (\<^verbatim>\<open>CreateEvent\<close> with a name that
  already exists opens the existing object), handles with a per-object count of open
  handles (an event is destroyed when its last handle is closed), thread message queues
  that exist only after the thread has touched its queue, and bounded waits. Handle
  values, thread identifiers, object identities, heap addresses and the addresses of the
  ThreadParam locals are handed out in increasing order and never used again.
\<close>

datatype HANDLE = INVALID_HANDLE_VALUE | NULL_HANDLE | Hnd nat

datatype wait_result = WAIT_OBJECT_0 | WAIT_TIMEOUT | WAIT_FAILED

datatype post_result = POST_OK | POST_NO_THREAD | POST_NO_QUEUE

datatype kobj = EventObj nat | ThreadObj nat

record event =
  ev_name :: string
  ev_signaled :: bool
  ev_refs :: nat

record MSG =
  message :: nat
  wParam :: nat

definition WM_QUIT :: nat where
  "WM_QUIT = 18"

definition WM_USER :: nat where
  "WM_USER = 1024"

text \<open>
  Modelled from the spec: UserMsgs.h is not in src. The spec reserves two distinct tags
  inside a reserved range; the concrete numbers below are only used through the lemmas
  \<open>user_msgs\<close>.
\<close>

definition WM_USER_BEGIN :: nat where
  "WM_USER_BEGIN = WM_USER + 1280"

definition WM_EXIT_THREAD :: nat where
  "WM_EXIT_THREAD = WM_USER_BEGIN"

definition WM_THREAD_MSG :: nat where
  "WM_THREAD_MSG = WM_USER_BEGIN + 1"

definition WM_USER_END :: nat where
  "WM_USER_END = WM_USER_BEGIN + 256"

definition ThreadCreatedEvent :: string where
  "ThreadCreatedEvent = ''ThreadCreatedEvent''"

definition ThreadExitedEvent :: string where
  "ThreadExitedEvent = ''ThreadExitedEvent''"

text \<open>
  Modelled from the spec: the constructor of ThreadWin and the static initialiser of
  \<^verbatim>\<open>m_hStartAllThreads\<close> are not in src. The spec has one process-wide manual-reset
  release-all object created once at process start, under a name of its own.
\<close>

definition StartAllThreadsEvent :: string where
  "StartAllThreadsEvent = ''StartAllThreadsEvent''"

section \<open>Program state\<close>

text \<open>Program points of \<^verbatim>\<open>ThreadWin::RunProcess\<close> (lines 260-293), per OS thread.\<close>

datatype run_pc =
    R_Entry          \<comment> \<open>line 264: thread = threadParam->pThread\<close>
  | R_Peek           \<comment> \<open>line 270: PeekMessage\<close>
  | R_SetStarted     \<comment> \<open>line 273: SetEvent(thread->m_hThreadStarted)\<close>
  | R_Barrier        \<comment> \<open>lines 277-283: the synchronized start\<close>
  | R_Process        \<comment> \<open>line 286: inside thread->Process(NULL)\<close>
  | R_SetExited      \<comment> \<open>line 289: SetEvent(thread->m_hThreadExited)\<close>
  | R_Return         \<comment> \<open>line 292: return retVal\<close>
  | R_Done           \<comment> \<open>the thread function has returned\<close>
  | R_Terminated     \<comment> \<open>killed by TerminateThread\<close>

record thread =
  t_param :: nat                \<comment> \<open>the argument threadParam: the address of a ThreadParam\<close>
  t_obj :: nat                  \<comment> \<open>the local variable thread, assigned at line 264\<close>
  t_pc :: run_pc
  t_queue :: "MSG list option"  \<comment> \<open>None: the message queue does not exist yet\<close>
  t_retVal :: nat

record ThreadWin =
  THREAD_NAME :: string
  SYNC_START :: bool
  m_hThreadStarted :: HANDLE
  m_hThreadExited :: HANDLE
  m_hThread :: HANDLE
  m_threadId :: nat

text \<open>
  Program points of the owner-side call in progress on one ThreadWin instance:
  \<^verbatim>\<open>CreateThread\<close> (lines 220-243) and \<^verbatim>\<open>ExitThread\<close> (lines 307-325). The spec
  assumes that the owner serialises its calls into one instance, so an instance has at
  most one call in progress.
\<close>

datatype call_pc =
    Idle
  | C_CreateEvent        \<comment> \<open>line 225\<close>
  | C_Spawn              \<comment> \<open>lines 228-231\<close>
  | C_Wait               \<comment> \<open>lines 234-235\<close>
  | C_Close              \<comment> \<open>line 237\<close>
  | C_Return             \<comment> \<open>lines 238-240\<close>
  | E_CreateEvent        \<comment> \<open>line 311\<close>
  | E_Post               \<comment> \<open>line 313\<close>
  | E_Wait               \<comment> \<open>line 316\<close>
  | E_Terminate          \<comment> \<open>line 317\<close>
  | E_CloseThread        \<comment> \<open>line 319\<close>
  | E_InvalidateThread   \<comment> \<open>line 320\<close>
  | E_CloseExited        \<comment> \<open>line 322\<close>
  | E_Return             \<comment> \<open>line 323\<close>

text \<open>The assertion sites of the source; the number is the instance or the thread.\<close>

datatype fault =
    F_CreateThread_spawn nat    \<comment> \<open>line 231: ASSERT_TRUE(m_hThread != NULL)\<close>
  | F_CreateThread_wait nat     \<comment> \<open>line 235: ASSERT_TRUE(err == WAIT_OBJECT_0)\<close>
  | F_RunProcess_started nat    \<comment> \<open>line 274: ASSERT_TRUE(err != 0)\<close>
  | F_RunProcess_barrier nat    \<comment> \<open>line 282: ASSERT_TRUE(err == WAIT_OBJECT_0)\<close>
  | F_RunProcess_exited nat     \<comment> \<open>line 290: ASSERT_TRUE(err != 0)\<close>
  | F_StartAllThreads           \<comment> \<open>line 301: ASSERT_TRUE(err != 0)\<close>
  | F_Process_wParam nat        \<comment> \<open>line 32: ASSERT_TRUE(msg.wParam != NULL)\<close>
  | F_Process_default nat       \<comment> \<open>line 49: ASSERT()\<close>

text \<open>
  The places where the program can leave defined behaviour: a thread reads the
  ThreadParam of a CreateThread() call that has returned (line 264), a thread
  dereferences and deletes a pointer to no live ThreadMsg (lines 38-41), the coordinator
  writes through such a pointer (lines 75, 82). The first number is the thread.
\<close>

datatype ub_site =
    UB_RunProcess_param nat     \<comment> \<open>line 264: threadParam points into a dead frame\<close>
  | UB_Process_pointer nat nat  \<comment> \<open>lines 38-41: threadMsg points to no live ThreadMsg\<close>
  | UB_main_write nat           \<comment> \<open>lines 75, 82: threadMsg points to no live ThreadMsg\<close>

text \<open>What the coordinator (the code of \<^verbatim>\<open>main\<close>) does with a ThreadMsg pointer.\<close>

datatype access = Coord_new nat | Coord_write nat | Coord_post nat

record sys =
  objs :: "nat \<Rightarrow> ThreadWin"          \<comment> \<open>the ThreadWin instances\<close>
  call :: "nat \<Rightarrow> call_pc"           \<comment> \<open>the call in progress on each instance\<close>
  created :: "nat \<Rightarrow> bool option"     \<comment> \<open>what the last CreateThread() returned\<close>
  threads :: "nat \<Rightarrow> thread option"   \<comment> \<open>OS threads by thread identifier\<close>
  next_tid :: nat
  stack :: "nat \<Rightarrow> nat option"       \<comment> \<open>live ThreadParam locals by address: their pThread\<close>
  threadParam :: "nat \<Rightarrow> nat"         \<comment> \<open>the local of the CreateThread() in progress on an instance\<close>
  next_frame :: nat
  handles :: "nat \<Rightarrow> kobj option"     \<comment> \<open>the process's handle table\<close>
  next_handle :: nat
  names :: "string \<Rightarrow> nat option"    \<comment> \<open>the kernel's namespace of named events\<close>
  events :: "nat \<Rightarrow> event option"    \<comment> \<open>event objects by object identity\<close>
  next_obj :: nat
  m_hStartAllThreads :: HANDLE        \<comment> \<open>the static member\<close>
  fault_returns :: bool               \<comment> \<open>the fault handler returns to its caller\<close>
  faults :: "fault list"              \<comment> \<open>fatal conditions signalled so far\<close>
  ub :: "ub_site list"                \<comment> \<open>undefined behaviour met so far\<close>
  heap :: "nat \<Rightarrow> string option"     \<comment> \<open>live ThreadMsg objects: their message\<close>
  next_addr :: nat
  threadMsg :: nat                    \<comment> \<open>the local variable of main\<close>
  cout :: "string list"               \<comment> \<open>lines written to std::cout\<close>
  delivered :: "(nat \<times> nat) list"     \<comment> \<open>(thread, payload) of every work item received\<close>
  posts :: "(nat \<times> MSG \<times> post_result) list"  \<comment> \<open>every post and its result\<close>
  sent :: "(nat \<times> MSG) list"         \<comment> \<open>(thread, message) of every message put into a queue\<close>
  coord :: "access list"              \<comment> \<open>the coordinator's accesses, in order\<close>


section \<open>The fault collaborator\<close>

text \<open>
  Fault.h is not in src. \<^verbatim>\<open>ASSERT_TRUE(c)\<close> signals a fatal condition when \<open>c\<close> is
  false; what the fault handler does then is a parameter of the model, the field
  \<open>fault_returns\<close>. The condition is recorded in \<open>faults\<close> in both cases. When the
  handler returns, the caller goes on, which is the case that the source's
  \<^verbatim>\<open>return m_hThread ? TRUE : FALSE\<close> after \<^verbatim>\<open>ASSERT_TRUE(m_hThread != NULL)\<close> is
  written for. When it does not return (it aborts the process, as the spec describes the
  collaborator), the process is dead from the first recorded fault on: no thread takes a
  step any more (\<open>alive\<close>, below), and what else the step that recorded the fault did
  is of no account.
\<close>

definition ASSERT_TRUE :: "bool \<Rightarrow> fault \<Rightarrow> sys \<Rightarrow> sys" where
  "ASSERT_TRUE c f s = (if c then s else s\<lparr>faults := faults s @ [f]\<rparr>)"

section \<open>The Win32 calls\<close>

definition upd_obj :: "nat \<Rightarrow> (ThreadWin \<Rightarrow> ThreadWin) \<Rightarrow> sys \<Rightarrow> sys" where
  "upd_obj tw f s = s\<lparr>objs := (objs s)(tw := f (objs s tw))\<rparr>"

definition set_call :: "nat \<Rightarrow> call_pc \<Rightarrow> sys \<Rightarrow> sys" where
  "set_call tw pc s = s\<lparr>call := (call s)(tw := pc)\<rparr>"

definition upd_thread :: "nat \<Rightarrow> (thread \<Rightarrow> thread) \<Rightarrow> sys \<Rightarrow> sys" where
  "upd_thread tid f s = s\<lparr>threads := (threads s)(tid := map_option f (threads s tid))\<rparr>"

definition set_pc :: "nat \<Rightarrow> run_pc \<Rightarrow> sys \<Rightarrow> sys" where
  "set_pc tid pc s = upd_thread tid (\<lambda>t. t\<lparr>t_pc := pc\<rparr>) s"

text \<open>The event object that an open handle refers to.\<close>

definition event_of :: "sys \<Rightarrow> HANDLE \<Rightarrow> nat option" where
  "event_of s h =
     (case h of
        Hnd k \<Rightarrow>
          (case handles s k of
             Some (EventObj ob) \<Rightarrow> (if events s ob = None then None else Some ob)
           | _ \<Rightarrow> None)
      | _ \<Rightarrow> None)"

definition is_signaled :: "sys \<Rightarrow> HANDLE \<Rightarrow> bool" where
  "is_signaled s h =
     (case event_of s h of
        Some ob \<Rightarrow> (case events s ob of Some e \<Rightarrow> ev_signaled e | None \<Rightarrow> False)
      | None \<Rightarrow> False)"

text \<open>
  \<^verbatim>\<open>CreateEvent(NULL, TRUE, FALSE, name)\<close>: a manual-reset event, initially not
  signalled. When an event of that name exists, the call opens it: the new handle
  refers to the existing object, whose state is left as it is. The handle returned is
  \<open>Hnd (next_handle s)\<close> of the state before the call.
\<close>

definition CreateEvent :: "string \<Rightarrow> sys \<Rightarrow> sys" where
  "CreateEvent nm s =
     (case names s nm of
        Some ob \<Rightarrow>
          s\<lparr>handles := (handles s)(next_handle s \<mapsto> EventObj ob),
            next_handle := Suc (next_handle s),
            events := (events s)(ob := map_option (\<lambda>e. e\<lparr>ev_refs := Suc (ev_refs e)\<rparr>) (events s ob))\<rparr>
      | None \<Rightarrow>
          s\<lparr>handles := (handles s)(next_handle s \<mapsto> EventObj (next_obj s)),
            next_handle := Suc (next_handle s),
            names := (names s)(nm \<mapsto> next_obj s),
            events := (events s)(next_obj s \<mapsto>
               \<lparr>ev_name = nm, ev_signaled = False, ev_refs = 1\<rparr>),
            next_obj := Suc (next_obj s)\<rparr>)"

text \<open>\<^verbatim>\<open>CloseHandle\<close>: closing the last handle of an event destroys the event.\<close>

definition CloseHandle :: "HANDLE \<Rightarrow> sys \<Rightarrow> sys" where
  "CloseHandle h s =
     (case h of
        Hnd k \<Rightarrow>
          (case handles s k of
             None \<Rightarrow> s
           | Some (ThreadObj t) \<Rightarrow> s\<lparr>handles := (handles s)(k := None)\<rparr>
           | Some (EventObj ob) \<Rightarrow>
               (case events s ob of
                  None \<Rightarrow> s\<lparr>handles := (handles s)(k := None)\<rparr>
                | Some e \<Rightarrow>
                    if ev_refs e \<le> 1
                    then s\<lparr>handles := (handles s)(k := None),
                           names := (names s)(ev_name e := None),
                           events := (events s)(ob := None)\<rparr>
                    else s\<lparr>handles := (handles s)(k := None),
                           events := (events s)(ob \<mapsto> e\<lparr>ev_refs := ev_refs e - 1\<rparr>)\<rparr>))
      | _ \<Rightarrow> s)"

text \<open>\<^verbatim>\<open>SetEvent\<close>: its BOOL result, and its effect.\<close>

definition SetEvent_ok :: "sys \<Rightarrow> HANDLE \<Rightarrow> bool" where
  "SetEvent_ok s h = (event_of s h \<noteq> None)"

definition SetEvent :: "HANDLE \<Rightarrow> sys \<Rightarrow> sys" where
  "SetEvent h s =
     (case event_of s h of
        Some ob \<Rightarrow>
          s\<lparr>events := (events s)(ob := map_option (\<lambda>e. e\<lparr>ev_signaled := True\<rparr>) (events s ob))\<rparr>
      | None \<Rightarrow> s)"

text \<open>
  \<^verbatim>\<open>WaitForSingleObject(h, MAX_WAIT_TIME)\<close> on an event. Time is not modelled: the
  flag \<open>elapsed\<close> says that MAX_WAIT_TIME has passed without the event being signalled.
  \<open>None\<close> means that the caller is still blocked.
\<close>

definition WaitForSingleObject :: "sys \<Rightarrow> HANDLE \<Rightarrow> bool \<Rightarrow> wait_result option" where
  "WaitForSingleObject s h elapsed =
     (if event_of s h = None then Some WAIT_FAILED
      else if is_signaled s h then Some WAIT_OBJECT_0
      else if elapsed then Some WAIT_TIMEOUT
      else None)"

text \<open>
  \<^verbatim>\<open>::CreateThread(NULL, 0, RunProcess, &threadParam, 0, &m_threadId)\<close> when it
  succeeds: a new thread about to enter RunProcess with the argument \<open>param\<close>, without a
  message queue; the handle and the identifier are stored in the instance \<open>tw\<close> (line
  230). The thread's local \<^verbatim>\<open>thread\<close> is not assigned yet.
\<close>

definition Win32_CreateThread :: "nat \<Rightarrow> nat \<Rightarrow> sys \<Rightarrow> sys" where
  "Win32_CreateThread tw param s =
     upd_obj tw (\<lambda>w. w\<lparr>m_hThread := Hnd (next_handle s), m_threadId := next_tid s\<rparr>)
       (s\<lparr>threads := (threads s)(next_tid s \<mapsto>
             \<lparr>t_param = param, t_obj = 0, t_pc = R_Entry, t_queue = None, t_retVal = 0\<rparr>),
          next_tid := Suc (next_tid s),
          handles := (handles s)(next_handle s \<mapsto> ThreadObj (next_tid s)),
          next_handle := Suc (next_handle s)\<rparr>)"

definition running :: "thread \<Rightarrow> bool" where
  "running t = (t_pc t \<noteq> R_Done \<and> t_pc t \<noteq> R_Terminated)"

definition TerminateThread :: "HANDLE \<Rightarrow> sys \<Rightarrow> sys" where
  "TerminateThread h s =
     (case h of
        Hnd k \<Rightarrow>
          (case handles s k of
             Some (ThreadObj tid) \<Rightarrow>
               upd_thread tid (\<lambda>t. if running t then t\<lparr>t_pc := R_Terminated\<rparr> else t) s
           | _ \<Rightarrow> s)
      | _ \<Rightarrow> s)"

text \<open>
  \<^verbatim>\<open>PeekMessage(&msg, NULL, WM_USER, WM_USER, PM_NOREMOVE)\<close>: the first call of a
  thread into its message queue creates the queue; nothing is removed.
\<close>

definition PeekMessage :: "nat \<Rightarrow> sys \<Rightarrow> sys" where
  "PeekMessage tid s =
     upd_thread tid
       (\<lambda>t. t\<lparr>t_queue := Some (case t_queue t of None \<Rightarrow> [] | Some q \<Rightarrow> q)\<rparr>) s"

text \<open>
  \<^verbatim>\<open>GetMessage(&msg, NULL, lo, hi)\<close> removes the first queued message whose tag is in
  the filter range; WM_QUIT is retrieved whatever the filter. \<open>None\<close>: no such message,
  the caller blocks.
\<close>

fun GetMessage :: "nat \<Rightarrow> nat \<Rightarrow> MSG list \<Rightarrow> (MSG \<times> MSG list) option" where
  "GetMessage lo hi [] = None"
| "GetMessage lo hi (m # q) =
     (if (lo \<le> message m \<and> message m \<le> hi) \<or> message m = WM_QUIT then Some (m, q)
      else (case GetMessage lo hi q of
              None \<Rightarrow> None
            | Some (m', q') \<Rightarrow> Some (m', m # q')))"

text \<open>
  \<^verbatim>\<open>::PostThreadMessage(idThread, msg, wParam, 0)\<close> fails when the identifier names no
  running thread, and when the thread has no message queue. Otherwise the message goes
  to the end of the thread's queue; \<open>sent\<close> keeps every message that was put into a queue.
\<close>

definition post_status :: "sys \<Rightarrow> nat \<Rightarrow> post_result" where
  "post_status s tid =
     (case threads s tid of
        None \<Rightarrow> POST_NO_THREAD
      | Some t \<Rightarrow>
          if \<not> running t then POST_NO_THREAD
          else if t_queue t = None then POST_NO_QUEUE
          else POST_OK)"

definition Win32_PostThreadMessage :: "nat \<Rightarrow> MSG \<Rightarrow> sys \<Rightarrow> sys" where
  "Win32_PostThreadMessage tid m s =
     (if post_status s tid = POST_OK
      then (upd_thread tid (\<lambda>t. t\<lparr>t_queue := map_option (\<lambda>q. q @ [m]) (t_queue t)\<rparr>) s)
             \<lparr>sent := sent s @ [(tid, m)]\<rparr>
      else s)"


section \<open>ThreadWin\<close>

text \<open>
  Modelled from the spec: \<^verbatim>\<open>ThreadWin::IsCreated\<close> is not in src. The spec ties the
  states Created and Running to the OS thread handle, which is valid from a create()
  until the join completes and invalid otherwise.
\<close>

definition IsCreated :: "ThreadWin \<Rightarrow> bool" where
  "IsCreated w = (m_hThread w \<noteq> INVALID_HANDLE_VALUE)"

text \<open>
  Modelled from the spec: \<^verbatim>\<open>ThreadWin::PostThreadMessage(msg, data)\<close> is not in src.
  By the spec it enqueues (tag, payload) into the queue of the instance's thread and
  reports a failure to the caller without crashing. The result of every post is kept in
  \<open>posts\<close>; the payload pointer is handed over, not dereferenced.
\<close>

definition PostThreadMessage :: "nat \<Rightarrow> nat \<Rightarrow> nat \<Rightarrow> sys \<Rightarrow> sys" where
  "PostThreadMessage tw msg data s =
     (let tid = m_threadId (objs s tw); m = \<lparr>message = msg, wParam = data\<rparr>
      in (Win32_PostThreadMessage tid m s)
           \<lparr>posts := posts s @ [(tw, m, post_status s tid)]\<rparr>)"

text \<open>
  \<^verbatim>\<open>BOOL ThreadWin::CreateThread()\<close>, lines 220-243. The entry of the call is the test
  of line 223 and, when it fails, the \<^verbatim>\<open>return FALSE\<close> of line 242.
\<close>

definition CreateThread_call :: "nat \<Rightarrow> sys \<Rightarrow> sys" where
  "CreateThread_call tw s =
     (if \<not> IsCreated (objs s tw) then set_call tw C_CreateEvent s
      else s\<lparr>created := (created s)(tw \<mapsto> False)\<rparr>)"

text \<open>
  The statements of the body, one per step. \<open>adverse\<close> is the environment's choice where
  a statement has one: at line 230 the OS fails to spawn the thread, at line 234
  MAX_WAIT_TIME elapses before the event is signalled. The local \<^verbatim>\<open>threadParam\<close> of
  lines 228-229 lives in the frame of the call: it gets a fresh address in \<open>stack\<close>, and
  it is dead once the call has returned.
\<close>

definition CreateThread :: "nat \<Rightarrow> bool \<Rightarrow> sys \<Rightarrow> sys option" where
  "CreateThread tw adverse s =
     (case call s tw of
        C_CreateEvent \<Rightarrow>
          \<comment> \<open>m_hThreadStarted = CreateEvent(NULL, TRUE, FALSE, ThreadCreatedEvent)\<close>
          Some (set_call tw C_Spawn
            (upd_obj tw (\<lambda>w. w\<lparr>m_hThreadStarted := Hnd (next_handle s)\<rparr>)
               (CreateEvent ThreadCreatedEvent s)))
      | C_Spawn \<Rightarrow>
          \<comment> \<open>ThreadParam threadParam; threadParam.pThread = this;
              m_hThread = ::CreateThread(..., &threadParam, ...); ASSERT_TRUE(m_hThread != NULL)\<close>
          (let s0 = s\<lparr>stack := (stack s)(next_frame s \<mapsto> tw),
                        threadParam := (threadParam s)(tw := next_frame s),
                        next_frame := Suc (next_frame s)\<rparr>;
               s1 = (if adverse then upd_obj tw (\<lambda>w. w\<lparr>m_hThread := NULL_HANDLE\<rparr>) s0
                     else Win32_CreateThread tw (next_frame s) s0)
           in Some (set_call tw C_Wait
                (ASSERT_TRUE (m_hThread (objs s1 tw) \<noteq> NULL_HANDLE) (F_CreateThread_spawn tw) s1)))
      | C_Wait \<Rightarrow>
          \<comment> \<open>err = WaitForSingleObject(m_hThreadStarted, MAX_WAIT_TIME);
              ASSERT_TRUE(err == WAIT_OBJECT_0)\<close>
          (case WaitForSingleObject s (m_hThreadStarted (objs s tw)) adverse of
             None \<Rightarrow> None
           | Some err \<Rightarrow>
               Some (set_call tw C_Close
                 (ASSERT_TRUE (err = WAIT_OBJECT_0) (F_CreateThread_wait tw) s)))
      | C_Close \<Rightarrow>
          \<comment> \<open>CloseHandle(m_hThreadStarted)\<close>
          Some (set_call tw C_Return (CloseHandle (m_hThreadStarted (objs s tw)) s))
      | C_Return \<Rightarrow>
          \<comment> \<open>m_hThreadStarted = INVALID_HANDLE_VALUE; return m_hThread ? TRUE : FALSE\<close>
          Some (set_call tw Idle
            ((upd_obj tw (\<lambda>w. w\<lparr>m_hThreadStarted := INVALID_HANDLE_VALUE\<rparr>) s)
               \<lparr>created := (created s)(tw \<mapsto> (m_hThread (objs s tw) \<noteq> NULL_HANDLE)),
                stack := (stack s)(threadParam s tw := None)\<rparr>))
      | _ \<Rightarrow> None)"

text \<open>\<^verbatim>\<open>void ThreadWin::StartAllThreads()\<close>, lines 298-302.\<close>

definition StartAllThreads :: "sys \<Rightarrow> sys" where
  "StartAllThreads s =
     ASSERT_TRUE (SetEvent_ok s (m_hStartAllThreads s)) F_StartAllThreads
       (SetEvent (m_hStartAllThreads s) s)"

text \<open>
  \<^verbatim>\<open>void ThreadWin::ExitThread()\<close>, lines 307-325. The entry of the call is the test of
  line 309.
\<close>

definition ExitThread_call :: "nat \<Rightarrow> sys \<Rightarrow> sys" where
  "ExitThread_call tw s =
     (if m_hThread (objs s tw) \<noteq> INVALID_HANDLE_VALUE then set_call tw E_CreateEvent s
      else s)"

definition ExitThread :: "nat \<Rightarrow> bool \<Rightarrow> sys \<Rightarrow> sys option" where
  "ExitThread tw adverse s =
     (case call s tw of
        E_CreateEvent \<Rightarrow>
          \<comment> \<open>m_hThreadExited = CreateEvent(NULL, TRUE, FALSE, ThreadExitedEvent)\<close>
          Some (set_call tw E_Post
            (upd_obj tw (\<lambda>w. w\<lparr>m_hThreadExited := Hnd (next_handle s)\<rparr>)
               (CreateEvent ThreadExitedEvent s)))
      | E_Post \<Rightarrow>
          \<comment> \<open>PostThreadMessage(WM_EXIT_THREAD)\<close>
          Some (set_call tw E_Wait (PostThreadMessage tw WM_EXIT_THREAD 0 s))
      | E_Wait \<Rightarrow>
          \<comment> \<open>if (::WaitForSingleObject(m_hThreadExited, MAX_WAIT_TIME) == WAIT_TIMEOUT)\<close>
          (case WaitForSingleObject s (m_hThreadExited (objs s tw)) adverse of
             None \<Rightarrow> None
           | Some err \<Rightarrow>
               Some (set_call tw (if err = WAIT_TIMEOUT then E_Terminate else E_CloseThread) s))
      | E_Terminate \<Rightarrow>
          \<comment> \<open>::TerminateThread(m_hThread, 1)\<close>
          Some (set_call tw E_CloseThread (TerminateThread (m_hThread (objs s tw)) s))
      | E_CloseThread \<Rightarrow>
          \<comment> \<open>::CloseHandle(m_hThread)\<close>
          Some (set_call tw E_InvalidateThread (CloseHandle (m_hThread (objs s tw)) s))
      | E_InvalidateThread \<Rightarrow>
          \<comment> \<open>m_hThread = INVALID_HANDLE_VALUE\<close>
          Some (set_call tw E_CloseExited
            (upd_obj tw (\<lambda>w. w\<lparr>m_hThread := INVALID_HANDLE_VALUE\<rparr>) s))
      | E_CloseExited \<Rightarrow>
          \<comment> \<open>::CloseHandle(m_hThreadExited)\<close>
          Some (set_call tw E_Return (CloseHandle (m_hThreadExited (objs s tw)) s))
      | E_Return \<Rightarrow>
          \<comment> \<open>m_hThreadExited = INVALID_HANDLE_VALUE\<close>
          Some (set_call tw Idle
            (upd_obj tw (\<lambda>w. w\<lparr>m_hThreadExited := INVALID_HANDLE_VALUE\<rparr>) s))
      | _ \<Rightarrow> None)"

section \<open>WorkerThread\<close>

text \<open>
  \<^verbatim>\<open>std::string::c_str\<close> as \<^verbatim>\<open>operator<<\<close> reads it: the characters before the first
  NUL.
\<close>

definition c_str :: "string \<Rightarrow> string" where
  "c_str txt = takeWhile (\<lambda>c. c \<noteq> CHR 0x00) txt"

text \<open>
  \<^verbatim>\<open>WorkerThread::Process\<close>, lines 22-53: one turn of the message loop on thread
  \<open>tid\<close>. \<open>None\<close>: GetMessage blocks. Leaving the loop moves the thread to line 289 of
  RunProcess with \<open>retVal = 0\<close>. A work item is logged in \<open>delivered\<close> when the loop has
  taken it from the queue, whatever its pointer is; lines 38 and 41 then use the pointer
  as it is.
\<close>

definition Process :: "nat \<Rightarrow> sys \<Rightarrow> sys option" where
  "Process tid s =
     (case threads s tid of
        None \<Rightarrow> None
      | Some t \<Rightarrow>
          (case GetMessage WM_USER_BEGIN WM_USER_END (case t_queue t of None \<Rightarrow> [] | Some q \<Rightarrow> q) of
             None \<Rightarrow> None
           | Some (msg, q') \<Rightarrow>
               (let s1 = upd_thread tid (\<lambda>t. t\<lparr>t_queue := Some q'\<rparr>) s in
                if message msg = WM_QUIT then
                  \<comment> \<open>bRet = 0: the loop ends, return 0\<close>
                  Some (upd_thread tid (\<lambda>t. t\<lparr>t_pc := R_SetExited, t_retVal := 0\<rparr>) s1)
                else if message msg = WM_THREAD_MSG then
                  \<comment> \<open>ASSERT_TRUE(msg.wParam != NULL); cout << message << name; delete threadMsg\<close>
                  (let s2 = (ASSERT_TRUE (wParam msg \<noteq> 0) (F_Process_wParam tid) s1)
                              \<lparr>delivered := delivered s1 @ [(tid, wParam msg)]\<rparr> in
                   case heap s2 (wParam msg) of
                     None \<Rightarrow> Some (s2\<lparr>ub := ub s2 @ [UB_Process_pointer tid (wParam msg)]\<rparr>)
                   | Some txt \<Rightarrow>
                       Some (s2\<lparr>cout := cout s2 @
                                  [c_str txt @ '' '' @ THREAD_NAME (objs s2 (t_obj t))],
                                heap := (heap s2)(wParam msg := None)\<rparr>))
                else if message msg = WM_EXIT_THREAD then
                  \<comment> \<open>return 0\<close>
                  Some (upd_thread tid (\<lambda>t. t\<lparr>t_pc := R_SetExited, t_retVal := 0\<rparr>) s1)
                else
                  \<comment> \<open>default: ASSERT()\<close>
                  Some (s1\<lparr>faults := faults s1 @ [F_Process_default tid]\<rparr>))))"

text \<open>\<^verbatim>\<open>int ThreadWin::RunProcess(void* threadParam)\<close>, lines 260-293, on thread \<open>tid\<close>.\<close>

definition RunProcess :: "nat \<Rightarrow> bool \<Rightarrow> sys \<Rightarrow> sys option" where
  "RunProcess tid elapsed s =
     (case threads s tid of
        None \<Rightarrow> None
      | Some t \<Rightarrow>
          (let thread = objs s (t_obj t) in
           case t_pc t of
             R_Entry \<Rightarrow>
               \<comment> \<open>thread = (ThreadWin*)(static_cast<ThreadParam*>(threadParam))->pThread\<close>
               (case stack s (t_param t) of
                  None \<Rightarrow> Some (s\<lparr>ub := ub s @ [UB_RunProcess_param tid]\<rparr>)
                | Some tw \<Rightarrow> Some (upd_thread tid (\<lambda>t. t\<lparr>t_obj := tw, t_pc := R_Peek\<rparr>) s))
           | R_Peek \<Rightarrow>
               \<comment> \<open>PeekMessage(&msg, NULL, WM_USER, WM_USER, PM_NOREMOVE)\<close>
               Some (set_pc tid R_SetStarted (PeekMessage tid s))
           | R_SetStarted \<Rightarrow>
               \<comment> \<open>BOOL err = SetEvent(thread->m_hThreadStarted); ASSERT_TRUE(err != 0)\<close>
               Some (set_pc tid R_Barrier
                 (ASSERT_TRUE (SetEvent_ok s (m_hThreadStarted thread)) (F_RunProcess_started tid)
                    (SetEvent (m_hThreadStarted thread) s)))
           | R_Barrier \<Rightarrow>
               \<comment> \<open>if (thread->SYNC_START == TRUE) { err = WaitForSingleObject(m_hStartAllThreads,
                   MAX_WAIT_TIME); ASSERT_TRUE(err == WAIT_OBJECT_0); }\<close>
               (if SYNC_START thread then
                  (case WaitForSingleObject s (m_hStartAllThreads s) elapsed of
                     None \<Rightarrow> None
                   | Some err \<Rightarrow>
                       Some (set_pc tid R_Process
                         (ASSERT_TRUE (err = WAIT_OBJECT_0) (F_RunProcess_barrier tid) s)))
                else Some (set_pc tid R_Process s))
           | R_Process \<Rightarrow>
               \<comment> \<open>int retVal = thread->Process(NULL)\<close>
               Process tid s
           | R_SetExited \<Rightarrow>
               \<comment> \<open>err = SetEvent(thread->m_hThreadExited); ASSERT_TRUE(err != 0)\<close>
               Some (set_pc tid R_Return
                 (ASSERT_TRUE (SetEvent_ok s (m_hThreadExited thread)) (F_RunProcess_exited tid)
                    (SetEvent (m_hThreadExited thread) s)))
           | R_Return \<Rightarrow>
               \<comment> \<open>return retVal\<close>
               Some (set_pc tid R_Done s)
           | R_Done \<Rightarrow> None
           | R_Terminated \<Rightarrow> None))"


section \<open>The interleaving semantics\<close>

text \<open>
  An action is one atomic move of one thread of control: an owner thread enters a
  method of an instance, an owner thread executes the next statement of the call in
  progress on an instance, an OS thread executes the next statement of RunProcess, or
  the coordinator executes a statement of \<^verbatim>\<open>main\<close> that is not a call. Any number
  of owner threads may be at work: calls on different instances may overlap, calls on
  one instance may not. The flag of \<open>Owner\<close> and \<open>Worker\<close> is the environment's choice
  at the statement executed (the spawn fails, MAX_WAIT_TIME elapses). \<open>exec\<close> returns
  \<open>None\<close> when the action cannot be taken: the call is not at such a statement, or the
  thread is blocked.
\<close>

datatype action =
    Call_CreateThread nat                \<comment> \<open>instance.CreateThread()\<close>
  | Call_ExitThread nat                  \<comment> \<open>instance.ExitThread()\<close>
  | Call_StartAllThreads                 \<comment> \<open>ThreadWin::StartAllThreads()\<close>
  | Call_PostThreadMessage nat nat nat   \<comment> \<open>instance.PostThreadMessage(msg, data)\<close>
  | Owner nat bool                       \<comment> \<open>next statement of the call on the instance\<close>
  | Worker nat bool                      \<comment> \<open>next statement of the OS thread\<close>
  | Main_New                             \<comment> \<open>threadMsg = new ThreadMsg()\<close>
  | Main_Write string                    \<comment> \<open>threadMsg->message = text\<close>
  | Main_Post nat nat                    \<comment> \<open>instance.PostThreadMessage(msg, threadMsg)\<close>
  | Main_Sleep                           \<comment> \<open>Sleep(1000)\<close>

fun exec :: "action \<Rightarrow> sys \<Rightarrow> sys option" where
  "exec (Call_CreateThread tw) s =
     (if call s tw = Idle then Some (CreateThread_call tw s) else None)"
| "exec (Call_ExitThread tw) s =
     (if call s tw = Idle then Some (ExitThread_call tw s) else None)"
| "exec Call_StartAllThreads s = Some (StartAllThreads s)"
| "exec (Call_PostThreadMessage tw msg data) s =
     Some ((PostThreadMessage tw msg data s)\<lparr>coord := coord s @ [Coord_post data]\<rparr>)"
| "exec (Owner tw adverse) s =
     (case CreateThread tw adverse s of
        Some s' \<Rightarrow> Some s'
      | None \<Rightarrow> ExitThread tw adverse s)"
| "exec (Worker tid elapsed) s = RunProcess tid elapsed s"
| "exec Main_New s =
     Some (s\<lparr>heap := (heap s)(next_addr s \<mapsto> []),
             next_addr := Suc (next_addr s),
             threadMsg := next_addr s,
             coord := coord s @ [Coord_new (next_addr s)]\<rparr>)"
| "exec (Main_Write txt) s =
     Some (if heap s (threadMsg s) = None
           then s\<lparr>ub := ub s @ [UB_main_write (threadMsg s)],
                  coord := coord s @ [Coord_write (threadMsg s)]\<rparr>
           else s\<lparr>heap := (heap s)(threadMsg s \<mapsto> txt),
                  coord := coord s @ [Coord_write (threadMsg s)]\<rparr>)"
| "exec (Main_Post tw msg) s =
     Some ((PostThreadMessage tw msg (threadMsg s) s)
             \<lparr>coord := coord s @ [Coord_post (threadMsg s)]\<rparr>)"
| "exec Main_Sleep s = Some s"

text \<open>
  The process is alive until a fatal condition meets a fault handler that does not
  return, or until it leaves defined behaviour: what the program does from there on is
  not determined by its source. Only a live process takes steps.
\<close>

definition alive :: "sys \<Rightarrow> bool" where
  "alive s = (ub s = [] \<and> (fault_returns s \<or> faults s = []))"

definition step :: "action \<Rightarrow> sys \<Rightarrow> sys option" where
  "step a s = (if alive s then exec a s else None)"

fun run :: "action list \<Rightarrow> sys \<Rightarrow> sys option" where
  "run [] s = Some s"
| "run (a # as) s = (case step a s of None \<Rightarrow> None | Some s' \<Rightarrow> run as s')"

inductive reach :: "sys \<Rightarrow> sys \<Rightarrow> bool" for s0 :: sys where
  reach_init: "reach s0 s0"
| reach_step: "reach s0 s \<Longrightarrow> step a s = Some s' \<Longrightarrow> reach s0 s'"

text \<open>
  Modelled from the spec: the constructor of ThreadWin is not in src. A handle that is
  Unborn owns no thread and no signal object; the release-all object exists from process
  start and is not signalled. \<open>cfg\<close> gives every instance its name and its sync-start
  flag, \<open>ret\<close> says whether the fault handler returns. Handle 0 and object 0 are the
  release-all event; address 0 is the null pointer.
\<close>

definition init :: "(nat \<Rightarrow> string \<times> bool) \<Rightarrow> bool \<Rightarrow> sys" where
  "init cfg ret =
     \<lparr>objs = (\<lambda>tw. \<lparr>THREAD_NAME = fst (cfg tw), SYNC_START = snd (cfg tw),
                     m_hThreadStarted = INVALID_HANDLE_VALUE,
                     m_hThreadExited = INVALID_HANDLE_VALUE,
                     m_hThread = INVALID_HANDLE_VALUE, m_threadId = 0\<rparr>),
      call = (\<lambda>tw. Idle),
      created = (\<lambda>tw. None),
      threads = (\<lambda>tid. None),
      next_tid = 1,
      stack = (\<lambda>a. None),
      threadParam = (\<lambda>tw. 0),
      next_frame = 1,
      handles = (\<lambda>k. if k = 0 then Some (EventObj 0) else None),
      next_handle = 1,
      names = (\<lambda>nm. if nm = StartAllThreadsEvent then Some 0 else None),
      events = (\<lambda>ob. if ob = 0
                      then Some \<lparr>ev_name = StartAllThreadsEvent, ev_signaled = False, ev_refs = 1\<rparr>
                      else None),
      next_obj = 1,
      m_hStartAllThreads = Hnd 0,
      fault_returns = ret,
      faults = [],
      ub = [],
      heap = (\<lambda>a. None),
      next_addr = 1,
      threadMsg = 0,
      cout = [],
      delivered = [],
      posts = [],
      sent = [],
      coord = []\<rparr>"

section \<open>main\<close>

text \<open>
  Lines 57-59: the two worker instances, with the default \<^verbatim>\<open>syncStart = TRUE\<close>.
  Lines 64-94: the statements of \<^verbatim>\<open>main\<close> in program order. Each call into an instance
  stands for the entry of the call; its body runs as \<open>Owner\<close> steps.
\<close>

definition workers :: "nat \<Rightarrow> string \<times> bool" where
  "workers tw =
     (if tw = 1 then (''WorkerThread1'', True)
      else if tw = 2 then (''WorkerThread2'', True)
      else ([], True))"

definition main :: "action list" where
  "main =
     [Call_CreateThread 1, Call_CreateThread 2,
      Call_StartAllThreads,
      Main_New, Main_Write ''Hello world!'', Main_Post 1 WM_THREAD_MSG,
      Main_New, Main_Write ''Hello world!'', Main_Post 2 WM_THREAD_MSG,
      Main_Sleep,
      Call_ExitThread 1, Call_ExitThread 2]"

section \<open>Schedules\<close>

text \<open>
  A CreateThread() on instance \<open>tw\<close> that succeeds, the spawned thread being \<open>tid\<close>: the
  owner creates the event and spawns the thread, the thread reads its parameter, probes
  its queue and sets the event, the owner's wait returns, the owner closes the event and
  returns.
\<close>

definition create_schedule :: "nat \<Rightarrow> nat \<Rightarrow> action list" where
  "create_schedule tw tid =
     [Call_CreateThread tw, Owner tw False, Owner tw False,
      Worker tid False, Worker tid False, Worker tid False,
      Owner tw False, Owner tw False, Owner tw False]"

text \<open>
  Two instances are created one after the other, the barrier is released, and the first
  thread passes the barrier; the second thread is still waiting at it.
\<close>

definition barrier_schedule :: "action list" where
  "barrier_schedule =
     create_schedule 1 1 @ create_schedule 2 2 @ [Call_StartAllThreads, Worker 1 False]"

text \<open>
  An ExitThread() on instance \<open>tw\<close> whose thread \<open>tid\<close> is in its work loop and answers
  in time: the owner creates the exit event and posts WM_EXIT_THREAD, the thread leaves
  the loop and sets the event, the owner's wait returns, the thread returns, the owner
  closes both handles.
\<close>

definition graceful_exit :: "nat \<Rightarrow> nat \<Rightarrow> action list" where
  "graceful_exit tw tid =
     [Call_ExitThread tw, Owner tw False, Owner tw False,
      Worker tid False, Worker tid False,
      Owner tw False, Worker tid False,
      Owner tw False, Owner tw False, Owner tw False, Owner tw False]"

text \<open>
  One instance is created, released, and asked to exit; the schedule stops before the
  last statement of ExitThread (line 323).
\<close>

definition exit_schedule :: "action list" where
  "exit_schedule =
     create_schedule 1 1 @ [Call_StartAllThreads, Worker 1 False] @ butlast (graceful_exit 1 1)"

text \<open>
  One instance is created and, the barrier never being released, asked to exit: the
  owner has posted WM_EXIT_THREAD and is about to wait, the thread is parked at the
  barrier.
\<close>

definition parked_exit_schedule :: "action list" where
  "parked_exit_schedule =
     create_schedule 1 1 @ [Call_ExitThread 1, Owner 1 False, Owner 1 False]"

text \<open>
  The statements of ExitThread from the wait of line 316 on, when the wait times out:
  lines 316, 317, 319, 320, 322, 323.
\<close>

definition timeout_tail :: "nat \<Rightarrow> action list" where
  "timeout_tail tw =
     [Owner tw True, Owner tw False, Owner tw False, Owner tw False, Owner tw False,
      Owner tw False]"


text \<open>
  One interleaving of \<^verbatim>\<open>main\<close> with its two worker threads: every call runs to its end
  before main goes on, and each thread handles a message as soon as it is posted.
\<close>

definition demo_schedule :: "action list" where
  "demo_schedule =
     create_schedule 1 1 @ create_schedule 2 2 @
     [Call_StartAllThreads, Worker 1 False, Worker 2 False,
      Main_New, Main_Write ''Hello world!'', Main_Post 1 WM_THREAD_MSG, Worker 1 False,
      Main_New, Main_Write ''Hello world!'', Main_Post 2 WM_THREAD_MSG, Worker 2 False,
      Main_Sleep] @
     graceful_exit 1 1 @ graceful_exit 2 2"


text \<open>
  A CreateThread() whose handshake wait times out: the owner creates the event and
  spawns the thread, the thread is not scheduled within MAX_WAIT_TIME, the owner's wait
  returns WAIT_TIMEOUT, the owner closes the event and returns.
\<close>

definition timeout_create_schedule :: "action list" where
  "timeout_create_schedule =
     [Call_CreateThread 1, Owner 1 False, Owner 1 False, Owner 1 True,
      Owner 1 False, Owner 1 False]"

text \<open>
  Two owner threads create instance 1 and instance 2 at the same time. Both calls have
  executed line 225 before either thread is spawned; thread 1 runs first and sets its
  event; the owner of instance 2 then finishes its call, thread 2 not having run yet.
\<close>

definition overlap_schedule :: "action list" where
  "overlap_schedule =
     [Call_CreateThread 1, Owner 1 False,
      Call_CreateThread 2, Owner 2 False,
      Owner 1 False, Owner 2 False,
      Worker 1 False, Worker 1 False, Worker 1 False,
      Owner 2 False, Owner 2 False, Owner 2 False]"

text \<open>
  The same overlap, thread 2 having read its parameter (line 264) while the CreateThread()
  of instance 2 is still in progress: thread 1 sets the event, the owner of instance 2
  finishes its call, and thread 2 then probes its queue and reaches line 273.
\<close>

definition late_signal_schedule :: "action list" where
  "late_signal_schedule =
     [Call_CreateThread 1, Owner 1 False,
      Call_CreateThread 2, Owner 2 False,
      Owner 1 False, Owner 2 False,
      Worker 2 False,
      Worker 1 False, Worker 1 False, Worker 1 False,
      Owner 2 False, Owner 2 False, Owner 2 False,
      Worker 2 False, Worker 2 False]"

text \<open>
  One instance is created and released; the owner posts WM_EXIT_THREAD itself instead of
  calling ExitThread(), so the work loop returns and RunProcess reaches line 289 before
  any ExitThread() has created the exit event.
\<close>

definition early_return_schedule :: "action list" where
  "early_return_schedule =
     create_schedule 1 1 @
     [Call_StartAllThreads, Worker 1 False,
      Call_PostThreadMessage 1 WM_EXIT_THREAD 0,
      Worker 1 False, Worker 1 False]"


section \<open>Invariants and auxiliary notions\<close>

text \<open>
  The barrier is released when the event behind the static handle is signalled. A thread
  has entered its work loop when RunProcess has reached the call of Process or a later
  line. \<open>barrier_wf\<close> says that handle 0 and object 0 are the release-all event and belong
  to nobody else; \<open>barrier_holds r\<close> says that every sync-start thread that has entered its
  work loop did so with \<open>r\<close> true or after the fatal condition of line 282.
\<close>

definition released :: "sys \<Rightarrow> bool" where
  "released s = is_signaled s (m_hStartAllThreads s)"

definition in_work_loop :: "run_pc \<Rightarrow> bool" where
  "in_work_loop pc = (pc = R_Process \<or> pc = R_SetExited \<or> pc = R_Return \<or> pc = R_Done)"

definition barrier_wf :: "sys \<Rightarrow> bool" where
  "barrier_wf s =
     (m_hStartAllThreads s = Hnd 0 \<and> handles s 0 = Some (EventObj 0) \<and> events s 0 \<noteq> None \<and>
      0 < next_handle s \<and> 0 < next_obj s \<and>
      (\<forall>k. handles s k = Some (EventObj 0) \<longrightarrow> k = 0) \<and>
      (\<forall>nm. names s nm = Some 0 \<longrightarrow> nm = StartAllThreadsEvent) \<and>
      (\<forall>tw. m_hThreadStarted (objs s tw) \<noteq> Hnd 0 \<and> m_hThreadExited (objs s tw) \<noteq> Hnd 0 \<and>
            m_hThread (objs s tw) \<noteq> Hnd 0))"

definition barrier_holds :: "bool \<Rightarrow> sys \<Rightarrow> bool" where
  "barrier_holds r s =
     (\<forall>tid t. threads s tid = Some t \<longrightarrow> SYNC_START (objs s (t_obj t)) \<longrightarrow> in_work_loop (t_pc t) \<longrightarrow>
        r \<or> F_RunProcess_barrier tid \<in> set (faults s))"

text \<open>
  Between line 320 and the return of ExitThread the thread handle of the instance is
  invalid.
\<close>

definition exit_inv :: "sys \<Rightarrow> bool" where
  "exit_inv s =
     (\<forall>tw. (call s tw = E_CloseExited \<or> call s tw = E_Return) \<longrightarrow>
        m_hThread (objs s tw) = INVALID_HANDLE_VALUE)"


definition in_ExitThread :: "call_pc \<Rightarrow> bool" where
  "in_ExitThread pc =
     (pc = E_CreateEvent \<or> pc = E_Post \<or> pc = E_Wait \<or> pc = E_Terminate \<or> pc = E_CloseThread \<or>
      pc = E_InvalidateThread \<or> pc = E_CloseExited \<or> pc = E_Return)"

text \<open>
  A work item is a message tagged WM_THREAD_MSG whose wParam is the ThreadMsg pointer.
  The coordinator's statements are the actions other than the steps inside a call and
  the steps of the worker threads; \<open>coord_step\<close> is what such a statement does to the
  coordinator's variable \<^verbatim>\<open>threadMsg\<close>, the allocator and the access log.
  \<open>untouched_after_post\<close>: no pointer is written through or allocated again after it has
  been posted.
\<close>

definition work_item :: "nat \<Rightarrow> MSG" where
  "work_item p = \<lparr>message = WM_THREAD_MSG, wParam = p\<rparr>"

fun is_main :: "action \<Rightarrow> bool" where
  "is_main (Owner tw adverse) = False"
| "is_main (Worker tid elapsed) = False"
| "is_main a = True"





text \<open>
  The payloads of the work items in a list of messages, in order; those put into the
  queue of a thread so far, those its work loop has received so far, and those still in
  its queue. A thread has left its work loop when \<^verbatim>\<open>Process\<close> has returned or the thread
  was killed. Thread identifiers not handed out yet name no thread (\<open>tid_wf\<close>).
\<close>

definition payloads :: "MSG list \<Rightarrow> nat list" where
  "payloads q = map wParam (filter (\<lambda>m. message m = WM_THREAD_MSG) q)"

definition sent_to :: "sys \<Rightarrow> nat \<Rightarrow> nat list" where
  "sent_to s tid = payloads (map snd (filter (\<lambda>x. fst x = tid) (sent s)))"

definition received_by :: "sys \<Rightarrow> nat \<Rightarrow> nat list" where
  "received_by s tid = map snd (filter (\<lambda>x. fst x = tid) (delivered s))"

definition queued :: "sys \<Rightarrow> nat \<Rightarrow> nat list" where
  "queued s tid =
     (case threads s tid of
        None \<Rightarrow> []
      | Some t \<Rightarrow> (case t_queue t of None \<Rightarrow> [] | Some q \<Rightarrow> payloads q))"


definition tid_wf :: "sys \<Rightarrow> bool" where
  "tid_wf s = (\<forall>tid. next_tid s \<le> tid \<longrightarrow> threads s tid = None)"

definition fifo_inv :: "sys \<Rightarrow> bool" where
  "fifo_inv s = (\<forall>tid. sent_to s tid = received_by s tid @ queued s tid)"

text \<open>
  Once a thread is past the probe of line 270 and has not been killed, its message queue
  exists.
\<close>

definition queue_inv :: "sys \<Rightarrow> bool" where
  "queue_inv s =
     (\<forall>tid t. threads s tid = Some t \<longrightarrow> t_pc t \<noteq> R_Entry \<longrightarrow> t_pc t \<noteq> R_Peek \<longrightarrow>
        t_pc t \<noteq> R_Terminated \<longrightarrow> t_queue t \<noteq> None)"

section \<open>Basic facts\<close>

lemma user_msgs:
  "WM_THREAD_MSG \<noteq> WM_EXIT_THREAD"
  "WM_THREAD_MSG \<noteq> WM_QUIT"
  "WM_EXIT_THREAD \<noteq> WM_QUIT"
  "WM_USER_BEGIN \<le> WM_THREAD_MSG" "WM_THREAD_MSG \<le> WM_USER_END"
  "WM_USER_BEGIN \<le> WM_EXIT_THREAD" "WM_EXIT_THREAD \<le> WM_USER_END"
  by (simp_all add: WM_THREAD_MSG_def WM_EXIT_THREAD_def WM_QUIT_def WM_USER_BEGIN_def
      WM_USER_END_def WM_USER_def)

lemma event_names:
  "ThreadCreatedEvent \<noteq> StartAllThreadsEvent"
  "ThreadExitedEvent \<noteq> StartAllThreadsEvent"
  "ThreadCreatedEvent \<noteq> ThreadExitedEvent"
  by (simp_all add: ThreadCreatedEvent_def ThreadExitedEvent_def StartAllThreadsEvent_def)

lemma ASSERT_TRUE_frame [simp]:
  "objs (ASSERT_TRUE c f s) = objs s"
  "call (ASSERT_TRUE c f s) = call s"
  "created (ASSERT_TRUE c f s) = created s"
  "threads (ASSERT_TRUE c f s) = threads s"
  "next_tid (ASSERT_TRUE c f s) = next_tid s"
  "stack (ASSERT_TRUE c f s) = stack s"
  "threadParam (ASSERT_TRUE c f s) = threadParam s"
  "next_frame (ASSERT_TRUE c f s) = next_frame s"
  "handles (ASSERT_TRUE c f s) = handles s"
  "next_handle (ASSERT_TRUE c f s) = next_handle s"
  "names (ASSERT_TRUE c f s) = names s"
  "events (ASSERT_TRUE c f s) = events s"
  "next_obj (ASSERT_TRUE c f s) = next_obj s"
  "m_hStartAllThreads (ASSERT_TRUE c f s) = m_hStartAllThreads s"
  "fault_returns (ASSERT_TRUE c f s) = fault_returns s"
  "ub (ASSERT_TRUE c f s) = ub s"
  "heap (ASSERT_TRUE c f s) = heap s"
  "next_addr (ASSERT_TRUE c f s) = next_addr s"
  "threadMsg (ASSERT_TRUE c f s) = threadMsg s"
  "cout (ASSERT_TRUE c f s) = cout s"
  "delivered (ASSERT_TRUE c f s) = delivered s"
  "posts (ASSERT_TRUE c f s) = posts s"
  "sent (ASSERT_TRUE c f s) = sent s"
  "coord (ASSERT_TRUE c f s) = coord s"
  by (simp_all add: ASSERT_TRUE_def )

lemma upd_obj_frame [simp]:
  "call (upd_obj tw f s) = call s"
  "created (upd_obj tw f s) = created s"
  "threads (upd_obj tw f s) = threads s"
  "next_tid (upd_obj tw f s) = next_tid s"
  "stack (upd_obj tw f s) = stack s"
  "threadParam (upd_obj tw f s) = threadParam s"
  "next_frame (upd_obj tw f s) = next_frame s"
  "handles (upd_obj tw f s) = handles s"
  "next_handle (upd_obj tw f s) = next_handle s"
  "names (upd_obj tw f s) = names s"
  "events (upd_obj tw f s) = events s"
  "next_obj (upd_obj tw f s) = next_obj s"
  "m_hStartAllThreads (upd_obj tw f s) = m_hStartAllThreads s"
  "fault_returns (upd_obj tw f s) = fault_returns s"
  "faults (upd_obj tw f s) = faults s"
  "ub (upd_obj tw f s) = ub s"
  "heap (upd_obj tw f s) = heap s"
  "next_addr (upd_obj tw f s) = next_addr s"
  "threadMsg (upd_obj tw f s) = threadMsg s"
  "cout (upd_obj tw f s) = cout s"
  "delivered (upd_obj tw f s) = delivered s"
  "posts (upd_obj tw f s) = posts s"
  "sent (upd_obj tw f s) = sent s"
  "coord (upd_obj tw f s) = coord s"
  by (simp_all add: upd_obj_def )

lemma set_call_frame [simp]:
  "objs (set_call tw pc s) = objs s"
  "created (set_call tw pc s) = created s"
  "threads (set_call tw pc s) = threads s"
  "next_tid (set_call tw pc s) = next_tid s"
  "stack (set_call tw pc s) = stack s"
  "threadParam (set_call tw pc s) = threadParam s"
  "next_frame (set_call tw pc s) = next_frame s"
  "handles (set_call tw pc s) = handles s"
  "next_handle (set_call tw pc s) = next_handle s"
  "names (set_call tw pc s) = names s"
  "events (set_call tw pc s) = events s"
  "next_obj (set_call tw pc s) = next_obj s"
  "m_hStartAllThreads (set_call tw pc s) = m_hStartAllThreads s"
  "fault_returns (set_call tw pc s) = fault_returns s"
  "faults (set_call tw pc s) = faults s"
  "ub (set_call tw pc s) = ub s"
  "heap (set_call tw pc s) = heap s"
  "next_addr (set_call tw pc s) = next_addr s"
  "threadMsg (set_call tw pc s) = threadMsg s"
  "cout (set_call tw pc s) = cout s"
  "delivered (set_call tw pc s) = delivered s"
  "posts (set_call tw pc s) = posts s"
  "sent (set_call tw pc s) = sent s"
  "coord (set_call tw pc s) = coord s"
  by (simp_all add: set_call_def )

lemma upd_thread_frame [simp]:
  "objs (upd_thread tid f s) = objs s"
  "call (upd_thread tid f s) = call s"
  "created (upd_thread tid f s) = created s"
  "next_tid (upd_thread tid f s) = next_tid s"
  "stack (upd_thread tid f s) = stack s"
  "threadParam (upd_thread tid f s) = threadParam s"
  "next_frame (upd_thread tid f s) = next_frame s"
  "handles (upd_thread tid f s) = handles s"
  "next_handle (upd_thread tid f s) = next_handle s"
  "names (upd_thread tid f s) = names s"
  "events (upd_thread tid f s) = events s"
  "next_obj (upd_thread tid f s) = next_obj s"
  "m_hStartAllThreads (upd_thread tid f s) = m_hStartAllThreads s"
  "fault_returns (upd_thread tid f s) = fault_returns s"
  "faults (upd_thread tid f s) = faults s"
  "ub (upd_thread tid f s) = ub s"
  "heap (upd_thread tid f s) = heap s"
  "next_addr (upd_thread tid f s) = next_addr s"
  "threadMsg (upd_thread tid f s) = threadMsg s"
  "cout (upd_thread tid f s) = cout s"
  "delivered (upd_thread tid f s) = delivered s"
  "posts (upd_thread tid f s) = posts s"
  "sent (upd_thread tid f s) = sent s"
  "coord (upd_thread tid f s) = coord s"
  by (simp_all add: upd_thread_def )

lemma set_pc_frame [simp]:
  "objs (set_pc tid pc s) = objs s"
  "call (set_pc tid pc s) = call s"
  "created (set_pc tid pc s) = created s"
  "next_tid (set_pc tid pc s) = next_tid s"
  "stack (set_pc tid pc s) = stack s"
  "threadParam (set_pc tid pc s) = threadParam s"
  "next_frame (set_pc tid pc s) = next_frame s"
  "handles (set_pc tid pc s) = handles s"
  "next_handle (set_pc tid pc s) = next_handle s"
  "names (set_pc tid pc s) = names s"
  "events (set_pc tid pc s) = events s"
  "next_obj (set_pc tid pc s) = next_obj s"
  "m_hStartAllThreads (set_pc tid pc s) = m_hStartAllThreads s"
  "fault_returns (set_pc tid pc s) = fault_returns s"
  "faults (set_pc tid pc s) = faults s"
  "ub (set_pc tid pc s) = ub s"
  "heap (set_pc tid pc s) = heap s"
  "next_addr (set_pc tid pc s) = next_addr s"
  "threadMsg (set_pc tid pc s) = threadMsg s"
  "cout (set_pc tid pc s) = cout s"
  "delivered (set_pc tid pc s) = delivered s"
  "posts (set_pc tid pc s) = posts s"
  "sent (set_pc tid pc s) = sent s"
  "coord (set_pc tid pc s) = coord s"
  by (simp_all add: set_pc_def )

lemma CreateEvent_frame [simp]:
  "objs (CreateEvent nm s) = objs s"
  "call (CreateEvent nm s) = call s"
  "created (CreateEvent nm s) = created s"
  "threads (CreateEvent nm s) = threads s"
  "next_tid (CreateEvent nm s) = next_tid s"
  "stack (CreateEvent nm s) = stack s"
  "threadParam (CreateEvent nm s) = threadParam s"
  "next_frame (CreateEvent nm s) = next_frame s"
  "m_hStartAllThreads (CreateEvent nm s) = m_hStartAllThreads s"
  "fault_returns (CreateEvent nm s) = fault_returns s"
  "faults (CreateEvent nm s) = faults s"
  "ub (CreateEvent nm s) = ub s"
  "heap (CreateEvent nm s) = heap s"
  "next_addr (CreateEvent nm s) = next_addr s"
  "threadMsg (CreateEvent nm s) = threadMsg s"
  "cout (CreateEvent nm s) = cout s"
  "delivered (CreateEvent nm s) = delivered s"
  "posts (CreateEvent nm s) = posts s"
  "sent (CreateEvent nm s) = sent s"
  "coord (CreateEvent nm s) = coord s"
  by (simp_all add: CreateEvent_def split: option.splits)

lemma CloseHandle_frame [simp]:
  "objs (CloseHandle h s) = objs s"
  "call (CloseHandle h s) = call s"
  "created (CloseHandle h s) = created s"
  "threads (CloseHandle h s) = threads s"
  "next_tid (CloseHandle h s) = next_tid s"
  "stack (CloseHandle h s) = stack s"
  "threadParam (CloseHandle h s) = threadParam s"
  "next_frame (CloseHandle h s) = next_frame s"
  "next_handle (CloseHandle h s) = next_handle s"
  "next_obj (CloseHandle h s) = next_obj s"
  "m_hStartAllThreads (CloseHandle h s) = m_hStartAllThreads s"
  "fault_returns (CloseHandle h s) = fault_returns s"
  "faults (CloseHandle h s) = faults s"
  "ub (CloseHandle h s) = ub s"
  "heap (CloseHandle h s) = heap s"
  "next_addr (CloseHandle h s) = next_addr s"
  "threadMsg (CloseHandle h s) = threadMsg s"
  "cout (CloseHandle h s) = cout s"
  "delivered (CloseHandle h s) = delivered s"
  "posts (CloseHandle h s) = posts s"
  "sent (CloseHandle h s) = sent s"
  "coord (CloseHandle h s) = coord s"
  by (simp_all add: CloseHandle_def split: HANDLE.splits option.splits kobj.splits)

lemma SetEvent_frame [simp]:
  "objs (SetEvent h s) = objs s"
  "call (SetEvent h s) = call s"
  "created (SetEvent h s) = created s"
  "threads (SetEvent h s) = threads s"
  "next_tid (SetEvent h s) = next_tid s"
  "stack (SetEvent h s) = stack s"
  "threadParam (SetEvent h s) = threadParam s"
  "next_frame (SetEvent h s) = next_frame s"
  "handles (SetEvent h s) = handles s"
  "next_handle (SetEvent h s) = next_handle s"
  "names (SetEvent h s) = names s"
  "next_obj (SetEvent h s) = next_obj s"
  "m_hStartAllThreads (SetEvent h s) = m_hStartAllThreads s"
  "fault_returns (SetEvent h s) = fault_returns s"
  "faults (SetEvent h s) = faults s"
  "ub (SetEvent h s) = ub s"
  "heap (SetEvent h s) = heap s"
  "next_addr (SetEvent h s) = next_addr s"
  "threadMsg (SetEvent h s) = threadMsg s"
  "cout (SetEvent h s) = cout s"
  "delivered (SetEvent h s) = delivered s"
  "posts (SetEvent h s) = posts s"
  "sent (SetEvent h s) = sent s"
  "coord (SetEvent h s) = coord s"
  by (simp_all add: SetEvent_def split: option.splits)

lemma Win32_CreateThread_frame [simp]:
  "call (Win32_CreateThread tw param s) = call s"
  "created (Win32_CreateThread tw param s) = created s"
  "stack (Win32_CreateThread tw param s) = stack s"
  "threadParam (Win32_CreateThread tw param s) = threadParam s"
  "next_frame (Win32_CreateThread tw param s) = next_frame s"
  "names (Win32_CreateThread tw param s) = names s"
  "events (Win32_CreateThread tw param s) = events s"
  "next_obj (Win32_CreateThread tw param s) = next_obj s"
  "m_hStartAllThreads (Win32_CreateThread tw param s) = m_hStartAllThreads s"
  "fault_returns (Win32_CreateThread tw param s) = fault_returns s"
  "faults (Win32_CreateThread tw param s) = faults s"
  "ub (Win32_CreateThread tw param s) = ub s"
  "heap (Win32_CreateThread tw param s) = heap s"
  "next_addr (Win32_CreateThread tw param s) = next_addr s"
  "threadMsg (Win32_CreateThread tw param s) = threadMsg s"
  "cout (Win32_CreateThread tw param s) = cout s"
  "delivered (Win32_CreateThread tw param s) = delivered s"
  "posts (Win32_CreateThread tw param s) = posts s"
  "sent (Win32_CreateThread tw param s) = sent s"
  "coord (Win32_CreateThread tw param s) = coord s"
  by (simp_all add: Win32_CreateThread_def )

lemma TerminateThread_frame [simp]:
  "objs (TerminateThread h s) = objs s"
  "call (TerminateThread h s) = call s"
  "created (TerminateThread h s) = created s"
  "next_tid (TerminateThread h s) = next_tid s"
  "stack (TerminateThread h s) = stack s"
  "threadParam (TerminateThread h s) = threadParam s"
  "next_frame (TerminateThread h s) = next_frame s"
  "handles (TerminateThread h s) = handles s"
  "next_handle (TerminateThread h s) = next_handle s"
  "names (TerminateThread h s) = names s"
  "events (TerminateThread h s) = events s"
  "next_obj (TerminateThread h s) = next_obj s"
  "m_hStartAllThreads (TerminateThread h s) = m_hStartAllThreads s"
  "fault_returns (TerminateThread h s) = fault_returns s"
  "faults (TerminateThread h s) = faults s"
  "ub (TerminateThread h s) = ub s"
  "heap (TerminateThread h s) = heap s"
  "next_addr (TerminateThread h s) = next_addr s"
  "threadMsg (TerminateThread h s) = threadMsg s"
  "cout (TerminateThread h s) = cout s"
  "delivered (TerminateThread h s) = delivered s"
  "posts (TerminateThread h s) = posts s"
  "sent (TerminateThread h s) = sent s"
  "coord (TerminateThread h s) = coord s"
  by (simp_all add: TerminateThread_def split: HANDLE.splits option.splits kobj.splits)

lemma PeekMessage_frame [simp]:
  "objs (PeekMessage tid s) = objs s"
  "call (PeekMessage tid s) = call s"
  "created (PeekMessage tid s) = created s"
  "next_tid (PeekMessage tid s) = next_tid s"
  "stack (PeekMessage tid s) = stack s"
  "threadParam (PeekMessage tid s) = threadParam s"
  "next_frame (PeekMessage tid s) = next_frame s"
  "handles (PeekMessage tid s) = handles s"
  "next_handle (PeekMessage tid s) = next_handle s"
  "names (PeekMessage tid s) = names s"
  "events (PeekMessage tid s) = events s"
  "next_obj (PeekMessage tid s) = next_obj s"
  "m_hStartAllThreads (PeekMessage tid s) = m_hStartAllThreads s"
  "fault_returns (PeekMessage tid s) = fault_returns s"
  "faults (PeekMessage tid s) = faults s"
  "ub (PeekMessage tid s) = ub s"
  "heap (PeekMessage tid s) = heap s"
  "next_addr (PeekMessage tid s) = next_addr s"
  "threadMsg (PeekMessage tid s) = threadMsg s"
  "cout (PeekMessage tid s) = cout s"
  "delivered (PeekMessage tid s) = delivered s"
  "posts (PeekMessage tid s) = posts s"
  "sent (PeekMessage tid s) = sent s"
  "coord (PeekMessage tid s) = coord s"
  by (simp_all add: PeekMessage_def )

lemma Win32_PostThreadMessage_frame [simp]:
  "objs (Win32_PostThreadMessage tid m s) = objs s"
  "call (Win32_PostThreadMessage tid m s) = call s"
  "created (Win32_PostThreadMessage tid m s) = created s"
  "next_tid (Win32_PostThreadMessage tid m s) = next_tid s"
  "stack (Win32_PostThreadMessage tid m s) = stack s"
  "threadParam (Win32_PostThreadMessage tid m s) = threadParam s"
  "next_frame (Win32_PostThreadMessage tid m s) = next_frame s"
  "handles (Win32_PostThreadMessage tid m s) = handles s"
  "next_handle (Win32_PostThreadMessage tid m s) = next_handle s"
  "names (Win32_PostThreadMessage tid m s) = names s"
  "events (Win32_PostThreadMessage tid m s) = events s"
  "next_obj (Win32_PostThreadMessage tid m s) = next_obj s"
  "m_hStartAllThreads (Win32_PostThreadMessage tid m s) = m_hStartAllThreads s"
  "fault_returns (Win32_PostThreadMessage tid m s) = fault_returns s"
  "faults (Win32_PostThreadMessage tid m s) = faults s"
  "ub (Win32_PostThreadMessage tid m s) = ub s"
  "heap (Win32_PostThreadMessage tid m s) = heap s"
  "next_addr (Win32_PostThreadMessage tid m s) = next_addr s"
  "threadMsg (Win32_PostThreadMessage tid m s) = threadMsg s"
  "cout (Win32_PostThreadMessage tid m s) = cout s"
  "delivered (Win32_PostThreadMessage tid m s) = delivered s"
  "posts (Win32_PostThreadMessage tid m s) = posts s"
  "coord (Win32_PostThreadMessage tid m s) = coord s"
  by (simp_all add: Win32_PostThreadMessage_def )

lemma PostThreadMessage_frame [simp]:
  "objs (PostThreadMessage tw msg data s) = objs s"
  "call (PostThreadMessage tw msg data s) = call s"
  "created (PostThreadMessage tw msg data s) = created s"
  "next_tid (PostThreadMessage tw msg data s) = next_tid s"
  "stack (PostThreadMessage tw msg data s) = stack s"
  "threadParam (PostThreadMessage tw msg data s) = threadParam s"
  "next_frame (PostThreadMessage tw msg data s) = next_frame s"
  "handles (PostThreadMessage tw msg data s) = handles s"
  "next_handle (PostThreadMessage tw msg data s) = next_handle s"
  "names (PostThreadMessage tw msg data s) = names s"
  "events (PostThreadMessage tw msg data s) = events s"
  "next_obj (PostThreadMessage tw msg data s) = next_obj s"
  "m_hStartAllThreads (PostThreadMessage tw msg data s) = m_hStartAllThreads s"
  "fault_returns (PostThreadMessage tw msg data s) = fault_returns s"
  "faults (PostThreadMessage tw msg data s) = faults s"
  "ub (PostThreadMessage tw msg data s) = ub s"
  "heap (PostThreadMessage tw msg data s) = heap s"
  "next_addr (PostThreadMessage tw msg data s) = next_addr s"
  "threadMsg (PostThreadMessage tw msg data s) = threadMsg s"
  "cout (PostThreadMessage tw msg data s) = cout s"
  "delivered (PostThreadMessage tw msg data s) = delivered s"
  "coord (PostThreadMessage tw msg data s) = coord s"
  by (simp_all add: PostThreadMessage_def Let_def )

lemma StartAllThreads_frame [simp]:
  "objs (StartAllThreads s) = objs s"
  "call (StartAllThreads s) = call s"
  "created (StartAllThreads s) = created s"
  "threads (StartAllThreads s) = threads s"
  "next_tid (StartAllThreads s) = next_tid s"
  "stack (StartAllThreads s) = stack s"
  "threadParam (StartAllThreads s) = threadParam s"
  "next_frame (StartAllThreads s) = next_frame s"
  "handles (StartAllThreads s) = handles s"
  "next_handle (StartAllThreads s) = next_handle s"
  "names (StartAllThreads s) = names s"
  "next_obj (StartAllThreads s) = next_obj s"
  "m_hStartAllThreads (StartAllThreads s) = m_hStartAllThreads s"
  "fault_returns (StartAllThreads s) = fault_returns s"
  "ub (StartAllThreads s) = ub s"
  "heap (StartAllThreads s) = heap s"
  "next_addr (StartAllThreads s) = next_addr s"
  "threadMsg (StartAllThreads s) = threadMsg s"
  "cout (StartAllThreads s) = cout s"
  "delivered (StartAllThreads s) = delivered s"
  "posts (StartAllThreads s) = posts s"
  "sent (StartAllThreads s) = sent s"
  "coord (StartAllThreads s) = coord s"
  by (simp_all add: StartAllThreads_def )

lemma step_exec: "step a s = Some s' \<Longrightarrow> exec a s = Some s'"
  by (simp add: step_def split: if_splits)

lemma step_alive: "alive s \<Longrightarrow> step a s = exec a s"
  by (simp add: step_def)

lemma step_dead: "\<not> alive s \<Longrightarrow> step a s = None"
  by (simp add: step_def)

lemma alive_frame:
  "fault_returns s' = fault_returns s \<Longrightarrow> faults s' = faults s \<Longrightarrow> ub s' = ub s \<Longrightarrow>
     alive s' = alive s"
  by (simp add: alive_def)

lemma faults_ASSERT_TRUE [simp]:
  "faults (ASSERT_TRUE c f s) = (if c then faults s else faults s @ [f])"
  by (simp add: ASSERT_TRUE_def)

lemma objs_upd_obj [simp]: "objs (upd_obj tw f s) = (objs s)(tw := f (objs s tw))"
  by (simp add: upd_obj_def)

lemma call_set_call [simp]: "call (set_call tw pc s) = (call s)(tw := pc)"
  by (simp add: set_call_def)

lemma threads_upd_thread [simp]:
  "threads (upd_thread tid f s) = (threads s)(tid := map_option f (threads s tid))"
  by (simp add: upd_thread_def)

lemma threads_set_pc [simp]:
  "threads (set_pc tid pc s) = (threads s)(tid := map_option (\<lambda>t. t\<lparr>t_pc := pc\<rparr>) (threads s tid))"
  by (simp add: set_pc_def)

lemma objs_Win32_CreateThread [simp]:
  "objs (Win32_CreateThread tw param s) =
     (objs s)(tw := (objs s tw)\<lparr>m_hThread := Hnd (next_handle s), m_threadId := next_tid s\<rparr>)"
  by (simp add: Win32_CreateThread_def)

subsection \<open>The release-all event is never closed, reset or shared\<close>

lemma wf_init: "barrier_wf (init cfg ret)"
  by (simp add: barrier_wf_def init_def)

lemma wf_CreateEvent:
  assumes "barrier_wf s" "nm \<noteq> StartAllThreadsEvent"
  shows "barrier_wf (CreateEvent nm s)" "events (CreateEvent nm s) 0 = events s 0"
  using assms by (auto simp: barrier_wf_def CreateEvent_def split: option.splits)

lemma wf_CloseHandle:
  assumes "barrier_wf s" "h \<noteq> Hnd 0"
  shows "barrier_wf (CloseHandle h s)" "events (CloseHandle h s) 0 = events s 0"
  using assms by (auto simp: barrier_wf_def CloseHandle_def split: HANDLE.splits option.splits kobj.splits)

lemma wf_SetEvent:
  assumes "barrier_wf s"
  shows "barrier_wf (SetEvent h s)" "h \<noteq> Hnd 0 \<Longrightarrow> events (SetEvent h s) 0 = events s 0"
  using assms by (auto simp: barrier_wf_def SetEvent_def event_of_def split: HANDLE.splits option.splits kobj.splits if_splits)

lemma wf_Win32_CreateThread:
  assumes "barrier_wf s"
  shows "barrier_wf (Win32_CreateThread tw param s)"
  using assms by (auto simp: barrier_wf_def Win32_CreateThread_def upd_obj_def)

lemma wf_frame:
  assumes "barrier_wf s" "m_hStartAllThreads s' = m_hStartAllThreads s" "handles s' = handles s"
    "events s' = events s" "next_handle s' = next_handle s" "next_obj s' = next_obj s"
    "names s' = names s" "objs s' = objs s"
  shows "barrier_wf s'"
  using assms by (simp add: barrier_wf_def)

lemma wf_upd_obj:
  assumes "barrier_wf s" "m_hThreadStarted (f (objs s tw)) \<noteq> Hnd 0"
    "m_hThreadExited (f (objs s tw)) \<noteq> Hnd 0" "m_hThread (f (objs s tw)) \<noteq> Hnd 0"
  shows "barrier_wf (upd_obj tw f s)"
  using assms by (simp add: barrier_wf_def)

lemma wf_members:
  assumes "barrier_wf s"
  shows "m_hThreadStarted (objs s tw) \<noteq> Hnd 0" "m_hThreadExited (objs s tw) \<noteq> Hnd 0"
    "m_hThread (objs s tw) \<noteq> Hnd 0" "0 < next_handle s"
  using assms by (simp_all add: barrier_wf_def)


lemma wf_simps [simp]:
  "barrier_wf (set_call tw pc s) = barrier_wf s"
  "barrier_wf (ASSERT_TRUE c f s) = barrier_wf s"
  "barrier_wf (upd_thread tid g s) = barrier_wf s"
  "barrier_wf (set_pc tid rpc s) = barrier_wf s"
  "barrier_wf (PeekMessage tid s) = barrier_wf s"
  "barrier_wf (TerminateThread h s) = barrier_wf s"
  "barrier_wf (Win32_PostThreadMessage tid m s) = barrier_wf s"
  "barrier_wf (PostThreadMessage tw msg data s) = barrier_wf s"
  by (simp_all add: barrier_wf_def)

lemma wf_record_simps [simp]:
  "barrier_wf (s\<lparr>faults := fs\<rparr>) = barrier_wf s"
  "barrier_wf (s\<lparr>created := cr\<rparr>) = barrier_wf s"
  "barrier_wf (s\<lparr>coord := co\<rparr>) = barrier_wf s"
  "barrier_wf (s\<lparr>posts := ps\<rparr>) = barrier_wf s"
  "barrier_wf (s\<lparr>cout := ou\<rparr>) = barrier_wf s"
  "barrier_wf (s\<lparr>heap := hp\<rparr>) = barrier_wf s"
  "barrier_wf (s\<lparr>delivered := dl\<rparr>) = barrier_wf s"
  "barrier_wf (s\<lparr>next_addr := na\<rparr>) = barrier_wf s"
  "barrier_wf (s\<lparr>threadMsg := tm\<rparr>) = barrier_wf s"
  "barrier_wf (s\<lparr>ub := us\<rparr>) = barrier_wf s"
  "barrier_wf (s\<lparr>sent := se\<rparr>) = barrier_wf s"
  "barrier_wf (s\<lparr>stack := sk\<rparr>) = barrier_wf s"
  "barrier_wf (s\<lparr>threadParam := tp\<rparr>) = barrier_wf s"
  "barrier_wf (s\<lparr>next_frame := nf\<rparr>) = barrier_wf s"
  by (simp_all add: barrier_wf_def)

lemma wf_next_handle: "barrier_wf s \<Longrightarrow> next_handle s \<noteq> 0"
  by (simp add: barrier_wf_def)

lemma wf_CreateThread:
  assumes "barrier_wf s" "CreateThread tw adverse s = Some s'"
  shows "barrier_wf s' \<and> events s' 0 = events s 0"
  using assms
  by (auto simp: CreateThread_def Let_def wf_CreateEvent wf_CloseHandle wf_members
        wf_Win32_CreateThread event_names wf_next_handle
      intro!: wf_upd_obj split: call_pc.splits option.splits if_splits)

lemma wf_ExitThread:
  assumes "barrier_wf s" "ExitThread tw adverse s = Some s'"
  shows "barrier_wf s' \<and> events s' 0 = events s 0"
  using assms
  by (auto simp: ExitThread_def Let_def wf_CreateEvent wf_CloseHandle wf_members event_names wf_next_handle
      intro!: wf_upd_obj split: call_pc.splits option.splits if_splits)

lemma wf_Process:
  assumes "barrier_wf s" "Process tid s = Some s'"
  shows "barrier_wf s' \<and> events s' 0 = events s 0"
  using assms
  by (auto simp: Process_def Let_def split: option.splits if_splits prod.splits)

lemma wf_RunProcess:
  assumes "barrier_wf s" "RunProcess tid elapsed s = Some s'"
  shows "barrier_wf s' \<and> events s' 0 = events s 0"
  using assms
  by (auto simp: RunProcess_def Let_def wf_SetEvent wf_members wf_Process
      split: run_pc.splits option.splits if_splits)

lemma wf_StartAllThreads: "barrier_wf s \<Longrightarrow> barrier_wf (StartAllThreads s)"
  by (simp add: StartAllThreads_def wf_SetEvent)

lemma wf_step:
  assumes "barrier_wf s" "exec a s = Some s'"
  shows "barrier_wf s'"
  using assms
  by (cases a) (auto simp: CreateThread_call_def ExitThread_call_def wf_StartAllThreads
      dest: wf_CreateThread wf_ExitThread wf_RunProcess split: if_splits option.splits)

lemma ev0_step:
  assumes "barrier_wf s" "exec a s = Some s'" "a \<noteq> Call_StartAllThreads"
  shows "events s' 0 = events s 0"
  using assms
  by (cases a) (auto simp: CreateThread_call_def ExitThread_call_def
      dest: wf_CreateThread wf_ExitThread wf_RunProcess split: if_splits option.splits)

lemma wf_reach: "reach (init cfg ret) s \<Longrightarrow> barrier_wf s"
  by (induction rule: reach.induct) (auto intro: wf_init wf_step dest: step_exec)


lemma released_wf:
  "barrier_wf s \<Longrightarrow> released s = (\<exists>e. events s 0 = Some e \<and> ev_signaled e)"
  by (auto simp: released_def is_signaled_def event_of_def barrier_wf_def split: option.splits)

lemma released_StartAllThreads:
  assumes "barrier_wf s"
  shows "released (StartAllThreads s)" "faults (StartAllThreads s) = faults s"
  using assms
  by (auto simp: released_def is_signaled_def event_of_def barrier_wf_def StartAllThreads_def
      SetEvent_def SetEvent_ok_def ASSERT_TRUE_def split: option.splits)

lemma released_step:
  assumes "barrier_wf s" "released s" "exec a s = Some s'"
  shows "released s'"
proof (cases "a = Call_StartAllThreads")
  case True
  with assms show ?thesis by (auto simp: released_StartAllThreads)
next
  case False
  with assms have "events s' 0 = events s 0" by (simp add: ev0_step)
  moreover from assms have "barrier_wf s'" by (simp add: wf_step)
  ultimately show ?thesis using assms by (simp add: released_wf)
qed

lemma release_only:
  assumes "barrier_wf s" "\<not> released s" "exec a s = Some s'" "released s'"
  shows "a = Call_StartAllThreads"
proof (rule ccontr)
  assume "a \<noteq> Call_StartAllThreads"
  with assms have "events s' 0 = events s 0" by (simp add: ev0_step)
  moreover from assms have "barrier_wf s'" by (simp add: wf_step)
  ultimately show False using assms by (auto simp: released_wf)
qed

lemma holds_simps [simp]:
  "barrier_holds r (set_call tw pc s) = barrier_holds r s"
  "barrier_holds r (s\<lparr>created := cr\<rparr>) = barrier_holds r s"
  "barrier_holds r (s\<lparr>coord := co\<rparr>) = barrier_holds r s"
  "barrier_holds r (s\<lparr>posts := ps\<rparr>) = barrier_holds r s"
  "barrier_holds r (s\<lparr>cout := ou\<rparr>) = barrier_holds r s"
  "barrier_holds r (s\<lparr>heap := hp\<rparr>) = barrier_holds r s"
  "barrier_holds r (s\<lparr>delivered := dl\<rparr>) = barrier_holds r s"
  "barrier_holds r (s\<lparr>next_addr := na\<rparr>) = barrier_holds r s"
  "barrier_holds r (s\<lparr>threadMsg := tm\<rparr>) = barrier_holds r s"
  "barrier_holds r (s\<lparr>ub := us\<rparr>) = barrier_holds r s"
  "barrier_holds r (s\<lparr>sent := se\<rparr>) = barrier_holds r s"
  "barrier_holds r (s\<lparr>stack := sk\<rparr>) = barrier_holds r s"
  "barrier_holds r (s\<lparr>threadParam := tp\<rparr>) = barrier_holds r s"
  "barrier_holds r (s\<lparr>next_frame := nf\<rparr>) = barrier_holds r s"
  "barrier_holds r (CreateEvent nm s) = barrier_holds r s"
  "barrier_holds r (CloseHandle h s) = barrier_holds r s"
  "barrier_holds r (SetEvent h s) = barrier_holds r s"
  by (simp_all add: barrier_holds_def)

lemma holds_faults:
  "barrier_holds r s \<Longrightarrow> set (faults s) \<subseteq> set fs \<Longrightarrow> barrier_holds r (s\<lparr>faults := fs\<rparr>)"
  by (auto simp: barrier_holds_def)

lemma holds_ASSERT_TRUE:
  "barrier_holds r s \<Longrightarrow> barrier_holds r (ASSERT_TRUE c f s)"
  by (auto simp: barrier_holds_def)

lemma holds_upd_obj:
  assumes "barrier_holds r s" "SYNC_START (f (objs s tw)) = SYNC_START (objs s tw)"
  shows "barrier_holds r (upd_obj tw f s)"
  using assms by (auto simp: barrier_holds_def)

lemma holds_upd_thread:
  assumes "barrier_holds r s"
    "\<And>t. threads s tid = Some t \<Longrightarrow> t_obj (f t) = t_obj t \<and> (in_work_loop (t_pc (f t)) \<longrightarrow> in_work_loop (t_pc t))"
  shows "barrier_holds r (upd_thread tid f s)"
  using assms by (fastforce simp: barrier_holds_def)

lemma holds_Win32_CreateThread:
  assumes "barrier_holds r s"
  shows "barrier_holds r (Win32_CreateThread tw param s)"
  using assms by (auto simp: barrier_holds_def Win32_CreateThread_def upd_obj_def in_work_loop_def)


lemma holds_TerminateThread [simp]:
  "barrier_holds r s \<Longrightarrow> barrier_holds r (TerminateThread h s)"
  by (auto simp: TerminateThread_def in_work_loop_def intro!: holds_upd_thread
      split: HANDLE.splits option.splits kobj.splits if_splits)

lemma holds_PeekMessage [simp]:
  "barrier_holds r s \<Longrightarrow> barrier_holds r (PeekMessage tid s)"
  by (auto simp: PeekMessage_def intro!: holds_upd_thread)

lemma holds_Win32_PostThreadMessage [simp]:
  "barrier_holds r s \<Longrightarrow> barrier_holds r (Win32_PostThreadMessage tid m s)"
  by (auto simp: Win32_PostThreadMessage_def intro!: holds_upd_thread)

lemma holds_PostThreadMessage [simp]:
  "barrier_holds r s \<Longrightarrow> barrier_holds r (PostThreadMessage tw msg data s)"
  by (simp add: PostThreadMessage_def Let_def)

lemma holds_leave:
  assumes "barrier_holds r s"
    "\<And>t. threads s tid = Some t \<Longrightarrow> \<not> in_work_loop (t_pc (f t))"
  shows "barrier_holds r (upd_thread tid f s)"
  using assms by (fastforce simp: barrier_holds_def)

lemma holds_set_pc:
  assumes "barrier_holds r s"
    "\<And>t. threads s tid = Some t \<Longrightarrow> SYNC_START (objs s (t_obj t)) \<Longrightarrow> in_work_loop pc \<Longrightarrow>
       in_work_loop (t_pc t) \<or> r \<or> F_RunProcess_barrier tid \<in> set (faults s)"
  shows "barrier_holds r (set_pc tid pc s)"
  using assms by (fastforce simp: barrier_holds_def)

lemma holds_thread:
  assumes "barrier_holds r s" "threads s tid = Some t" "SYNC_START (objs s (t_obj t))"
    "in_work_loop (t_pc t)"
  shows "r \<or> F_RunProcess_barrier tid \<in> set (faults s)"
  using assms by (auto simp: barrier_holds_def)

lemma holds_CreateThread:
  assumes "barrier_holds r s" "CreateThread tw adverse s = Some s'"
  shows "barrier_holds r s'"
  using assms
  by (auto simp: CreateThread_def Let_def holds_ASSERT_TRUE holds_Win32_CreateThread
      intro!: holds_upd_obj holds_ASSERT_TRUE split: call_pc.splits option.splits if_splits)

lemma holds_ExitThread:
  assumes "barrier_holds r s" "ExitThread tw adverse s = Some s'"
  shows "barrier_holds r s'"
  using assms
  by (auto simp: ExitThread_def Let_def
      intro!: holds_upd_obj split: call_pc.splits option.splits if_splits)

lemma holds_Process:
  assumes "barrier_holds r s" "Process tid s = Some s'" "threads s tid = Some t" "t_pc t = R_Process"
  shows "barrier_holds r s'"
  using assms
  by (auto simp: Process_def Let_def in_work_loop_def
      intro!: holds_upd_thread holds_faults holds_ASSERT_TRUE
      split: option.splits if_splits prod.splits)

lemma holds_RunProcess:
  assumes "barrier_holds r s" "released s \<longrightarrow> r" "RunProcess tid elapsed s = Some s'"
  shows "barrier_holds r s'"
proof -
  from assms(3) obtain t where t: "threads s tid = Some t"
    by (auto simp: RunProcess_def split: option.splits)
  show ?thesis
  proof (cases "t_pc t")
    case R_Process
    with assms t show ?thesis by (auto simp: RunProcess_def dest: holds_Process)
  next
    case R_Barrier
    with assms t show ?thesis
      by (auto simp: RunProcess_def Let_def released_def WaitForSingleObject_def
          intro!: holds_set_pc holds_ASSERT_TRUE split: option.splits if_splits)
  next
    case R_Entry
    with assms t show ?thesis
      by (auto simp: RunProcess_def Let_def in_work_loop_def intro!: holds_leave
          split: option.splits)
  next
    case R_Peek
    with assms t show ?thesis
      by (auto simp: RunProcess_def Let_def in_work_loop_def intro!: holds_set_pc)
  next
    case R_SetStarted
    with assms t show ?thesis
      by (auto simp: RunProcess_def Let_def in_work_loop_def intro!: holds_set_pc holds_ASSERT_TRUE)
  next
    case R_SetExited
    with assms t show ?thesis
      by (auto simp: RunProcess_def Let_def in_work_loop_def intro!: holds_set_pc holds_ASSERT_TRUE)
  next
    case R_Return
    with assms t show ?thesis
      by (auto simp: RunProcess_def Let_def in_work_loop_def intro!: holds_set_pc)
  next
    case R_Done
    with assms t show ?thesis by (simp add: RunProcess_def)
  next
    case R_Terminated
    with assms t show ?thesis by (simp add: RunProcess_def)
  qed
qed

lemma holds_step:
  assumes "barrier_holds r s" "released s \<longrightarrow> r" "exec a s = Some s'"
  shows "barrier_holds r s'"
  using assms
  by (cases a) (auto simp: CreateThread_call_def ExitThread_call_def StartAllThreads_def
      holds_ASSERT_TRUE
      dest: holds_CreateThread holds_ExitThread holds_RunProcess split: if_splits option.splits)

lemma holds_mono: "barrier_holds r s \<Longrightarrow> (r \<longrightarrow> r') \<Longrightarrow> barrier_holds r' s"
  by (auto simp: barrier_holds_def)

lemma holds_reach: "reach (init cfg ret) s \<Longrightarrow> barrier_holds (released s) s"
proof (induction rule: reach.induct)
  case reach_init
  show ?case by (simp add: barrier_holds_def init_def)
next
  case (reach_step s a s')
  then have wf: "barrier_wf s" by (simp add: wf_reach)
  from reach_step have ex: "exec a s = Some s'" by (simp add: step_exec)
  with reach_step have "barrier_holds (released s) s'" by (simp add: holds_step)
  moreover from wf ex have "released s \<longrightarrow> released s'" by (auto dest: released_step)
  ultimately show ?case by (rule holds_mono)
qed


lemma run_reach: "reach s0 s \<Longrightarrow> run sch s = Some s' \<Longrightarrow> reach s0 s'"
proof (induction sch arbitrary: s)
  case Nil
  then show ?case by simp
next
  case (Cons a sch)
  then show ?case by (auto split: option.splits intro: reach_step)
qed

lemma run_reach_the: "\<not> Option.is_none (run sch s0) \<Longrightarrow> reach s0 (the (run sch s0))"
  by (cases "run sch s0") (auto intro: run_reach reach_init)

lemma StartAllThreads_released:
  assumes "barrier_wf s" "released s"
  shows "StartAllThreads s = s"
proof -
  from assms obtain e where e: "events s 0 = Some e" "ev_signaled e"
    by (auto simp: released_wf)
  then have "e\<lparr>ev_signaled := True\<rparr> = e" by simp
  with e have "(events s)(0 := map_option (\<lambda>e. e\<lparr>ev_signaled := True\<rparr>) (events s 0)) = events s"
    by (simp add: fun_upd_idem)
  moreover from assms e have "event_of s (m_hStartAllThreads s) = Some 0"
    by (simp add: barrier_wf_def event_of_def)
  ultimately show ?thesis
    by (simp add: StartAllThreads_def SetEvent_def SetEvent_ok_def ASSERT_TRUE_def)
qed

lemma barrier_pass:
  assumes "released s" "threads s tid = Some t" "t_pc t = R_Barrier"
  shows "\<exists>s'. exec (Worker tid elapsed) s = Some s' \<and>
           map_option t_pc (threads s' tid) = Some R_Process \<and> faults s' = faults s"
  using assms
  by (auto simp: RunProcess_def Let_def released_def WaitForSingleObject_def is_signaled_def
      split: option.splits)

lemma barrier_block:
  assumes "\<not> released s" "barrier_wf s" "threads s tid = Some t" "t_pc t = R_Barrier"
    "SYNC_START (objs s (t_obj t))"
  shows "exec (Worker tid False) s = None"
  using assms
  by (auto simp: RunProcess_def Let_def released_def WaitForSingleObject_def barrier_wf_def
      event_of_def split: option.splits)

subsection \<open>ExitThread\<close>

lemma exit_inv_CreateThread:
  assumes "exit_inv s" "CreateThread tw adverse s = Some s'"
  shows "exit_inv s'"
  using assms
  by (auto simp: exit_inv_def CreateThread_def Let_def split: call_pc.splits option.splits if_splits)

lemma exit_inv_ExitThread:
  assumes "exit_inv s" "ExitThread tw adverse s = Some s'"
  shows "exit_inv s'"
  using assms
  by (auto simp: exit_inv_def ExitThread_def Let_def split: call_pc.splits option.splits if_splits)

lemma RunProcess_owner_frame:
  assumes "RunProcess tid elapsed s = Some s'"
  shows "objs s' = objs s \<and> call s' = call s"
  using assms
  by (auto simp: RunProcess_def Process_def Let_def
      split: run_pc.splits option.splits if_splits prod.splits)

lemma exit_inv_step:
  assumes "exit_inv s" "exec a s = Some s'"
  shows "exit_inv s'"
proof (cases a)
  case (Owner tw adverse)
  with assms show ?thesis
    by (auto dest: exit_inv_CreateThread exit_inv_ExitThread split: option.splits)
next
  case (Worker tid elapsed)
  with assms have "objs s' = objs s \<and> call s' = call s" by (simp add: RunProcess_owner_frame)
  with assms show ?thesis by (simp add: exit_inv_def)
qed (use assms in \<open>auto simp: exit_inv_def CreateThread_call_def ExitThread_call_def split: if_splits\<close>)

lemma exit_inv_reach: "reach (init cfg ret) s \<Longrightarrow> exit_inv s"
proof (induction rule: reach.induct)
  case reach_init
  show ?case by (simp add: exit_inv_def init_def)
next
  case (reach_step s a s')
  then show ?case by (blast dest: step_exec intro: exit_inv_step)
qed


lemma handles_CloseHandle:
  "handles (CloseHandle (Hnd k) s) k = None"
  "handles s k = None \<Longrightarrow> handles (CloseHandle h s) k = None"
  by (auto simp: CloseHandle_def split: HANDLE.splits option.splits kobj.splits)

lemma handles_TerminateThread [simp]: "handles (TerminateThread h s) = handles s"
  by simp

lemma threads_TerminateThread:
  assumes "handles s k = Some (ThreadObj tid)" "threads (TerminateThread (Hnd k) s) tid = Some t'"
  shows "\<not> running t'"
proof -
  from assms obtain t where "t' = (if running t then t\<lparr>t_pc := R_Terminated\<rparr> else t)"
    by (auto simp: TerminateThread_def)
  then show ?thesis by (auto simp: running_def)
qed

lemma ExitThread_progress:
  assumes "in_ExitThread (call s tw)"
  shows "exec (Owner tw True) s \<noteq> None"
  using assms
  by (auto simp: in_ExitThread_def CreateThread_def ExitThread_def WaitForSingleObject_def)

lemma threads_TerminateThread_call:
  assumes "handles s k = Some (ThreadObj tid)"
    "threads (TerminateThread (Hnd k) (set_call tw pc s)) tid = Some t'"
  shows "\<not> running t'"
  using assms threads_TerminateThread [of "set_call tw pc s" k tid t'] by simp

subsection \<open>Work items\<close>









lemma GetMessage_work_item [simp]:
  "GetMessage WM_USER_BEGIN WM_USER_END (work_item p # q) = Some (work_item p, q)"
  by (simp add: work_item_def user_msgs)




subsection \<open>The fault handler and the thread identifiers do not change\<close>

lemma fault_returns_step:
  assumes "exec a s = Some s'"
  shows "fault_returns s' = fault_returns s"
  using assms
  by (cases a)
    (auto simp: CreateThread_call_def ExitThread_call_def CreateThread_def ExitThread_def
      RunProcess_def Process_def Let_def
      split: if_splits option.splits call_pc.splits run_pc.splits prod.splits)

lemma fault_returns_reach: "reach (init cfg ret) s \<Longrightarrow> fault_returns s = ret"
  by (induction rule: reach.induct) (auto simp: init_def dest: step_exec fault_returns_step)

lemma tid_wf_simps [simp]:
  "tid_wf (upd_thread tid f s) = tid_wf s"
  "tid_wf (set_pc tid pc s) = tid_wf s"
  "tid_wf (set_call tw cpc s) = tid_wf s"
  "tid_wf (upd_obj tw g s) = tid_wf s"
  "tid_wf (ASSERT_TRUE c fl s) = tid_wf s"
  "tid_wf (CreateEvent nm s) = tid_wf s"
  "tid_wf (CloseHandle h s) = tid_wf s"
  "tid_wf (SetEvent h s) = tid_wf s"
  "tid_wf (StartAllThreads s) = tid_wf s"
  by (auto simp: tid_wf_def)

lemma tid_wf_more [simp]:
  "tid_wf (TerminateThread h s) = tid_wf s"
  "tid_wf (PeekMessage tid s) = tid_wf s"
  "tid_wf (Win32_PostThreadMessage tid m s) = tid_wf s"
  "tid_wf (PostThreadMessage tw msg data s) = tid_wf s"
  by (auto simp: tid_wf_def TerminateThread_def PeekMessage_def Win32_PostThreadMessage_def
      PostThreadMessage_def Let_def split: HANDLE.splits option.splits kobj.splits)

lemma tid_wf_record [simp]:
  "tid_wf (s\<lparr>faults := fs\<rparr>) = tid_wf s"
  "tid_wf (s\<lparr>created := cr\<rparr>) = tid_wf s"
  "tid_wf (s\<lparr>coord := co\<rparr>) = tid_wf s"
  "tid_wf (s\<lparr>posts := ps\<rparr>) = tid_wf s"
  "tid_wf (s\<lparr>cout := ou\<rparr>) = tid_wf s"
  "tid_wf (s\<lparr>heap := hp\<rparr>) = tid_wf s"
  "tid_wf (s\<lparr>delivered := dl\<rparr>) = tid_wf s"
  "tid_wf (s\<lparr>next_addr := na\<rparr>) = tid_wf s"
  "tid_wf (s\<lparr>threadMsg := tm\<rparr>) = tid_wf s"
  "tid_wf (s\<lparr>ub := us\<rparr>) = tid_wf s"
  "tid_wf (s\<lparr>sent := se\<rparr>) = tid_wf s"
  "tid_wf (s\<lparr>stack := sk\<rparr>) = tid_wf s"
  "tid_wf (s\<lparr>threadParam := tp\<rparr>) = tid_wf s"
  "tid_wf (s\<lparr>next_frame := nf\<rparr>) = tid_wf s"
  by (simp_all add: tid_wf_def)

lemma tid_wf_frame:
  "tid_wf s \<Longrightarrow> threads s' = threads s \<Longrightarrow> next_tid s' = next_tid s \<Longrightarrow> tid_wf s'"
  by (simp add: tid_wf_def)

lemma tid_wf_Win32_CreateThread:
  "tid_wf s \<Longrightarrow> tid_wf (Win32_CreateThread tw param s)"
  by (auto simp: tid_wf_def Win32_CreateThread_def)

lemma tid_wf_CreateThread:
  assumes "tid_wf s" "CreateThread tw adverse s = Some s'"
  shows "tid_wf s'"
proof (cases "call s tw = C_Spawn \<and> \<not> adverse")
  case True
  let ?s0 = "s\<lparr>stack := (stack s)(next_frame s \<mapsto> tw),
                threadParam := (threadParam s)(tw := next_frame s),
                next_frame := Suc (next_frame s)\<rparr>"
  from assms(1) have "tid_wf ?s0" by simp
  then have "tid_wf (Win32_CreateThread tw (next_frame s) ?s0)"
    by (rule tid_wf_Win32_CreateThread)
  with True assms(2) show ?thesis by (auto simp: CreateThread_def Let_def)
next
  case False
  with assms(2) have "threads s' = threads s \<and> next_tid s' = next_tid s"
    by (auto simp: CreateThread_def Let_def split: call_pc.splits option.splits if_splits)
  with assms(1) show ?thesis by (blast intro: tid_wf_frame)
qed

lemma tid_wf_ExitThread:
  assumes "tid_wf s" "ExitThread tw adverse s = Some s'"
  shows "tid_wf s'"
  using assms
  by (auto simp: ExitThread_def Let_def split: call_pc.splits option.splits if_splits)

lemma tid_wf_RunProcess:
  assumes "tid_wf s" "RunProcess tid elapsed s = Some s'"
  shows "tid_wf s'"
proof -
  from assms(2) have "next_tid s' = next_tid s \<and> (\<forall>x. threads s x = None \<longrightarrow> threads s' x = None)"
    by (auto simp: RunProcess_def Process_def PeekMessage_def Let_def
        split: run_pc.splits option.splits if_splits prod.splits)
  with assms(1) show ?thesis by (simp add: tid_wf_def)
qed

lemma tid_wf_step:
  assumes "tid_wf s" "exec a s = Some s'"
  shows "tid_wf s'"
proof (cases a)
  case (Owner tw adverse)
  with assms show ?thesis
    by (auto dest: tid_wf_CreateThread tid_wf_ExitThread split: option.splits)
next
  case (Worker tid elapsed)
  with assms show ?thesis by (auto dest: tid_wf_RunProcess)
qed (use assms in \<open>auto simp: CreateThread_call_def ExitThread_call_def split: if_splits\<close>)


lemma tid_wf_run: "tid_wf s \<Longrightarrow> run sch s = Some s' \<Longrightarrow> tid_wf s'"
proof (induction sch arbitrary: s)
  case Nil
  then show ?case by simp
next
  case (Cons a sch)
  then show ?case by (auto split: option.splits dest: step_exec tid_wf_step)
qed

subsection \<open>A queue hands its work items over in order\<close>

text \<open>
  In every reachable state, for every thread: the payloads of the work items that were
  put into its queue are, in this order, those its work loop has received followed by
  those still in the queue. So the loop receives the pointers that were posted, in the
  order posted, none twice and none that was not posted.
\<close>

lemma payloads_simps [simp]:
  "payloads [] = []"
  "payloads (q @ q') = payloads q @ payloads q'"
  "payloads (m # q) = (if message m = WM_THREAD_MSG then wParam m # payloads q else payloads q)"
  by (simp_all add: payloads_def)


lemma queued_frame: "threads s' = threads s \<Longrightarrow> queued s' tid = queued s tid"
  by (simp add: queued_def)




lemma fifo_simps [simp]:
  "fifo_inv (set_call tw cpc s) = fifo_inv s"
  "fifo_inv (upd_obj tw g s) = fifo_inv s"
  "fifo_inv (ASSERT_TRUE c fl s) = fifo_inv s"
  "fifo_inv (StartAllThreads s) = fifo_inv s"
  "fifo_inv (s\<lparr>faults := fs\<rparr>) = fifo_inv s"
  "fifo_inv (s\<lparr>created := cr\<rparr>) = fifo_inv s"
  "fifo_inv (s\<lparr>coord := co\<rparr>) = fifo_inv s"
  "fifo_inv (s\<lparr>posts := ps\<rparr>) = fifo_inv s"
  "fifo_inv (s\<lparr>cout := ou\<rparr>) = fifo_inv s"
  "fifo_inv (s\<lparr>heap := hp\<rparr>) = fifo_inv s"
  "fifo_inv (s\<lparr>next_addr := na\<rparr>) = fifo_inv s"
  "fifo_inv (s\<lparr>threadMsg := tm\<rparr>) = fifo_inv s"
  "fifo_inv (s\<lparr>ub := us\<rparr>) = fifo_inv s"
  "fifo_inv (s\<lparr>stack := sk\<rparr>) = fifo_inv s"
  "fifo_inv (s\<lparr>threadParam := tp\<rparr>) = fifo_inv s"
  "fifo_inv (s\<lparr>next_frame := nf\<rparr>) = fifo_inv s"
  by (simp_all add: fifo_inv_def sent_to_def received_by_def queued_def)












subsection \<open>A thread that has left its work loop receives nothing more\<close>










subsection \<open>From the post to the receipt\<close>



subsection \<open>The handshake of CreateThread and RunProcess\<close>

text \<open>
  The order of lines 270 and 273: in every reachable state a thread that is past the
  probe, and has not been killed, has its message queue. In particular the event of line
  273 is set by a thread whose queue exists.
\<close>

lemma queue_upd_thread:
  assumes "queue_inv s"
    "\<And>t. threads s tid = Some t \<Longrightarrow> t_pc (f t) \<noteq> R_Entry \<Longrightarrow> t_pc (f t) \<noteq> R_Peek \<Longrightarrow>
       t_pc (f t) \<noteq> R_Terminated \<Longrightarrow> t_queue (f t) \<noteq> None"
  shows "queue_inv (upd_thread tid f s)"
  using assms by (fastforce simp: queue_inv_def)

lemma queue_frame:
  assumes "queue_inv s" "threads s' = threads s"
  shows "queue_inv s'"
  using assms by (simp add: queue_inv_def)

lemma queue_thread:
  assumes "queue_inv s" "threads s tid = Some t" "t_pc t \<noteq> R_Entry" "t_pc t \<noteq> R_Peek"
    "t_pc t \<noteq> R_Terminated"
  shows "t_queue t \<noteq> None"
  using assms by (auto simp: queue_inv_def)

lemma queue_sent [simp]: "queue_inv (s\<lparr>sent := se\<rparr>) = queue_inv s"
  by (simp add: queue_inv_def)

lemma queue_Win32_PostThreadMessage:
  "queue_inv s \<Longrightarrow> queue_inv (Win32_PostThreadMessage tid m s)"
  by (auto simp: Win32_PostThreadMessage_def intro!: queue_upd_thread dest: queue_thread)

lemma queue_CreateThread:
  assumes "queue_inv s" "CreateThread tw adverse s = Some s'"
  shows "queue_inv s'"
  using assms
  by (auto simp: CreateThread_def Let_def queue_inv_def Win32_CreateThread_def upd_obj_def
      split: call_pc.splits option.splits if_splits)

lemma queue_ExitThread:
  assumes "queue_inv s" "ExitThread tw adverse s = Some s'"
  shows "queue_inv s'"
proof (cases "call s tw = E_Post \<or> call s tw = E_Terminate")
  case False
  with assms have "threads s' = threads s"
    by (auto simp: ExitThread_def Let_def split: call_pc.splits option.splits if_splits)
  with assms show ?thesis by (blast intro: queue_frame)
next
  case True
  then show ?thesis
  proof
    assume "call s tw = E_Post"
    with assms have "s' = set_call tw E_Wait (PostThreadMessage tw WM_EXIT_THREAD 0 s)"
      by (simp add: ExitThread_def)
    moreover have "queue_inv (Win32_PostThreadMessage tid m s)" for tid m
      using assms(1) by (rule queue_Win32_PostThreadMessage)
    ultimately show ?thesis
      by (simp add: PostThreadMessage_def Let_def queue_inv_def)
  next
    assume "call s tw = E_Terminate"
    with assms have s': "s' = set_call tw E_CloseThread (TerminateThread (m_hThread (objs s tw)) s)"
      by (simp add: ExitThread_def)
    have "queue_inv (TerminateThread h s)" for h
      using assms(1)
      by (auto simp: TerminateThread_def intro!: queue_upd_thread dest: queue_thread
          split: HANDLE.splits option.splits kobj.splits if_splits)
    with s' show ?thesis by (simp add: queue_inv_def)
  qed
qed

lemma queue_RunProcess:
  assumes "queue_inv s" "RunProcess tid elapsed s = Some s'"
  shows "queue_inv s'"
proof -
  from assms(2) obtain t where t: "threads s tid = Some t"
    by (auto simp: RunProcess_def split: option.splits)
  show ?thesis
  proof (cases "t_pc t = R_Entry \<or> t_pc t = R_Peek")
    case True
    with assms t show ?thesis
      by (auto simp: RunProcess_def Let_def queue_inv_def PeekMessage_def
          split: if_splits option.splits)
  next
    case False
    with assms(1) t have "t_pc t = R_Terminated \<or> t_queue t \<noteq> None"
      by (auto dest: queue_thread)
    with assms t False show ?thesis
      by (auto simp: RunProcess_def Process_def Let_def queue_inv_def
          split: run_pc.splits option.splits if_splits prod.splits)
  qed
qed

lemma queue_step:
  assumes "queue_inv s" "exec a s = Some s'"
  shows "queue_inv s'"
proof (cases a)
  case (Owner tw adverse)
  with assms show ?thesis
    by (auto dest: queue_CreateThread queue_ExitThread split: option.splits)
next
  case (Worker tid elapsed)
  with assms show ?thesis by (auto dest: queue_RunProcess)
next
  case (Call_PostThreadMessage tw msg data)
  have "queue_inv (Win32_PostThreadMessage tid m s)" for tid m
    using assms(1) by (rule queue_Win32_PostThreadMessage)
  with assms Call_PostThreadMessage show ?thesis
    by (auto simp: PostThreadMessage_def Let_def queue_inv_def)
next
  case (Main_Post tw msg)
  have "queue_inv (Win32_PostThreadMessage tid m s)" for tid m
    using assms(1) by (rule queue_Win32_PostThreadMessage)
  with assms Main_Post show ?thesis
    by (auto simp: PostThreadMessage_def Let_def queue_inv_def)
qed (use assms in \<open>auto simp: queue_inv_def CreateThread_call_def ExitThread_call_def split: if_splits\<close>)

lemma probe_before_signal:
  assumes "reach (init cfg ret) s"
  shows "queue_inv s"
  using assms
proof (induction rule: reach.induct)
  case reach_init
  show ?case by (simp add: queue_inv_def init_def)
next
  case (reach_step s a s')
  then show ?case by (blast dest: step_exec intro: queue_step)
qed


text \<open>
  What CreateThread() returns is decided by the spawn alone: from the wait of line 234
  on, whatever the wait returns, the call returns whether \<^verbatim>\<open>m_hThread\<close> is not NULL; a
  wait that did not return WAIT_OBJECT_0 adds the fatal condition of line 235 and
  nothing else.
\<close>

lemma CreateThread_return_value:
  assumes "call s tw = C_Wait"
    and "WaitForSingleObject s (m_hThreadStarted (objs s tw)) adverse = Some err"
    and "alive s" and "err = WAIT_OBJECT_0 \<or> fault_returns s"
  shows "\<exists>s'. run [Owner tw adverse, Owner tw False, Owner tw False] s = Some s' \<and>
           call s' tw = Idle \<and>
           created s' tw = Some (m_hThread (objs s tw) \<noteq> NULL_HANDLE) \<and>
           faults s' = (if err = WAIT_OBJECT_0 then faults s else faults s @ [F_CreateThread_wait tw])"
  using assms by (auto simp: CreateThread_def step_def alive_def)

subsection \<open>The scenario of main\<close>

text \<open>
  The interleaving \<open>demo_schedule\<close> is a run of \<^verbatim>\<open>main\<close>: both CreateThread() calls
  return TRUE, each thread prints its message once, both threads return, every call has
  ended, no fatal condition is signalled, and the two created-signals and the two
  exit-signals were four different event objects (the next fresh object is 5), all
  destroyed again.
\<close>

lemma main_scenario:
  "filter is_main demo_schedule = main \<and>
   map_option (\<lambda>s. (created s 1, created s 2, cout s, faults s,
                     map_option t_pc (threads s 1), map_option t_pc (threads s 2),
                     call s 1, call s 2, next_obj s, map (events s) [1, 2, 3, 4]))
     (run demo_schedule (init workers False)) =
   Some (Some True, Some True,
         [''Hello world! WorkerThread1'', ''Hello world! WorkerThread2''], [],
         Some R_Done, Some R_Done, Idle, Idle, 5, [None, None, None, None])"
  by code_simp

section \<open>Verified properties\<close>

subsection \<open>C10: CreateThread() on an instance that is already created\<close>

text \<open>
  C10. Calling \<^verbatim>\<open>CreateThread()\<close> on an instance that is already Created or Running
  (\<open>IsCreated\<close>) returns FALSE at once and changes nothing: the resulting state is the
  state before the call but for the recorded return value, so no second OS thread is
  spawned, no event is allocated and the thread handle and identifier are untouched.
\<close>

theorem C10_create_on_created_handle:
  assumes "IsCreated (objs s tw)" and "call s tw = Idle" and "alive s"
  shows "step (Call_CreateThread tw) s = Some (s\<lparr>created := (created s)(tw \<mapsto> False)\<rparr>)"
  using assms by (simp add: step_def CreateThread_call_def)

theorem C10_witness:
  "IsCreated (objs (the (run (create_schedule 1 1) (init workers False))) 1) \<and>
   call (the (run (create_schedule 1 1) (init workers False))) 1 = Idle \<and>
   alive (the (run (create_schedule 1 1) (init workers False))) \<and>
   step (Call_CreateThread 1) (the (run (create_schedule 1 1) (init workers False))) =
     Some ((the (run (create_schedule 1 1) (init workers False)))
            \<lparr>created := (created (the (run (create_schedule 1 1) (init workers False))))(1 \<mapsto> False)\<rparr>)"
proof -
  have h1: "IsCreated (objs (the (run (create_schedule 1 1) (init workers False))) 1)"
    by code_simp
  have h2: "call (the (run (create_schedule 1 1) (init workers False))) 1 = Idle"
    by code_simp
  have h3: "alive (the (run (create_schedule 1 1) (init workers False)))"
    by code_simp
  from C10_create_on_created_handle [OF h1 h2 h3] h1 h2 h3 show ?thesis by simp
qed

subsection \<open>C2: the start barrier\<close>

text \<open>
  C2. The fault handler is the one the spec describes: it aborts the process (\<open>ret\<close> is
  false). (1) In every reachable state of the live process, a sync-start thread that has
  entered its work loop finds the barrier released: no thread begins its work loop before
  StartAllThreads() was called. Whatever the fault handler: (2) a released barrier stays
  released, and only StartAllThreads() releases it; (3) StartAllThreads() releases it,
  without a fault; (4) a sync-start thread waiting at the barrier is blocked while the
  barrier is not released (until MAX_WAIT_TIME elapses), and once it is released, whether
  the thread was created before or after the release, its wait returns at once and it
  enters the work loop without a fault.
\<close>

theorem C2_barrier:
  assumes "reach (init cfg ret) s"
  shows "(\<not> ret \<and> alive s \<longrightarrow>
            (\<forall>tid t. threads s tid = Some t \<and> SYNC_START (objs s (t_obj t)) \<and>
               in_work_loop (t_pc t) \<longrightarrow> released s)) \<and>
         (\<forall>a s'. step a s = Some s' \<longrightarrow>
            (released s \<longrightarrow> released s') \<and>
            (\<not> released s \<and> released s' \<longrightarrow> a = Call_StartAllThreads)) \<and>
         (alive s \<longrightarrow>
            (\<exists>s'. step Call_StartAllThreads s = Some s' \<and> released s' \<and> faults s' = faults s)) \<and>
         (\<forall>tid t. threads s tid = Some t \<and> t_pc t = R_Barrier \<and> SYNC_START (objs s (t_obj t)) \<longrightarrow>
            (if released s
             then alive s \<longrightarrow>
                  (\<forall>elapsed. \<exists>s'. step (Worker tid elapsed) s = Some s' \<and>
                     map_option t_pc (threads s' tid) = Some R_Process \<and> faults s' = faults s)
             else step (Worker tid False) s = None))"
proof -
  from assms have wf: "barrier_wf s" by (rule wf_reach)
  from assms have fr: "fault_returns s = ret" by (rule fault_returns_reach)
  from assms have "barrier_holds (released s) s" by (rule holds_reach)
  with fr have 1: "\<not> ret \<and> alive s \<longrightarrow>
            (\<forall>tid t. threads s tid = Some t \<and> SYNC_START (objs s (t_obj t)) \<and>
               in_work_loop (t_pc t) \<longrightarrow> released s)"
    by (auto simp: barrier_holds_def alive_def)
  from wf have 2: "\<forall>a s'. step a s = Some s' \<longrightarrow>
            (released s \<longrightarrow> released s') \<and>
            (\<not> released s \<and> released s' \<longrightarrow> a = Call_StartAllThreads)"
    by (blast dest: step_exec intro: released_step release_only)
  from wf have 3: "alive s \<longrightarrow>
            (\<exists>s'. step Call_StartAllThreads s = Some s' \<and> released s' \<and> faults s' = faults s)"
    by (simp add: step_alive released_StartAllThreads)
  have 4: "\<forall>tid t. threads s tid = Some t \<and> t_pc t = R_Barrier \<and> SYNC_START (objs s (t_obj t)) \<longrightarrow>
            (if released s
             then alive s \<longrightarrow>
                  (\<forall>elapsed. \<exists>s'. step (Worker tid elapsed) s = Some s' \<and>
                     map_option t_pc (threads s' tid) = Some R_Process \<and> faults s' = faults s)
             else step (Worker tid False) s = None)"
  proof (intro allI impI)
    fix tid t
    assume t: "threads s tid = Some t \<and> t_pc t = R_Barrier \<and> SYNC_START (objs s (t_obj t))"
    show "if released s
          then alive s \<longrightarrow>
               (\<forall>elapsed. \<exists>s'. step (Worker tid elapsed) s = Some s' \<and>
                  map_option t_pc (threads s' tid) = Some R_Process \<and> faults s' = faults s)
          else step (Worker tid False) s = None"
    proof (cases "released s")
      case True
      with t barrier_pass [of s tid t] show ?thesis
        by (simp add: step_alive del: exec.simps)
    next
      case False
      with t wf barrier_block [of s tid t] have "exec (Worker tid False) s = None" by blast
      with False show ?thesis by (simp add: step_def del: exec.simps)
    qed
  qed
  from 1 2 3 4 show ?thesis by blast
qed

theorem C2_witness:
  "reach (init workers False) (the (run barrier_schedule (init workers False))) \<and>
   alive (the (run barrier_schedule (init workers False))) \<and>
   map_option t_pc (threads (the (run barrier_schedule (init workers False))) 1) = Some R_Process \<and>
   map_option t_pc (threads (the (run barrier_schedule (init workers False))) 2) = Some R_Barrier \<and>
   released (the (run barrier_schedule (init workers False))) \<and>
   (\<exists>s'. step (Worker 2 True) (the (run barrier_schedule (init workers False))) = Some s' \<and>
      map_option t_pc (threads s' 2) = Some R_Process \<and>
      faults s' = faults (the (run barrier_schedule (init workers False))))"
proof -
  let ?S = "the (run barrier_schedule (init workers False))"
  have ok: "\<not> Option.is_none (run barrier_schedule (init workers False))" by code_simp
  then have r: "reach (init workers False) ?S" by (rule run_reach_the)
  have al: "alive ?S" by code_simp
  have t1: "threads ?S 1 =
      Some \<lparr>t_param = 1, t_obj = 1, t_pc = R_Process, t_queue = Some [], t_retVal = 0\<rparr>"
    by code_simp
  have t2: "threads ?S 2 =
      Some \<lparr>t_param = 2, t_obj = 2, t_pc = R_Barrier, t_queue = Some [], t_retVal = 0\<rparr>"
    by code_simp
  have sy: "SYNC_START (objs ?S 1)" "SYNC_START (objs ?S 2)" by code_simp+
  note c2 = C2_barrier [OF r]
  let ?t1 = "\<lparr>t_param = 1, t_obj = 1, t_pc = R_Process, t_queue = Some [], t_retVal = 0\<rparr>"
  from c2 al have "\<forall>tid t. threads ?S tid = Some t \<and> SYNC_START (objs ?S (t_obj t)) \<and>
      in_work_loop (t_pc t) \<longrightarrow> released ?S"
    by simp
  then have "threads ?S 1 = Some ?t1 \<and> SYNC_START (objs ?S (t_obj ?t1)) \<and>
      in_work_loop (t_pc ?t1) \<longrightarrow> released ?S"
    by blast
  with t1 sy have rel: "released ?S" by (simp add: in_work_loop_def)
  from c2 t2 sy rel al
  have "\<exists>s'. step (Worker 2 True) ?S = Some s' \<and>
      map_option t_pc (threads s' 2) = Some R_Process \<and> faults s' = faults ?S"
    by simp
  with r t1 t2 rel al show ?thesis by simp
qed

subsection \<open>C5: releasing the barrier again\<close>

text \<open>
  C5. Once the release-all event is signalled, in any reachable state of a live process,
  a further StartAllThreads() changes nothing at all (the state after the call is the
  state before it, so no fault is signalled either), and no step of any thread un-signals
  the event.
\<close>

theorem C5_release_idempotent:
  assumes "reach (init cfg ret) s" and "released s" and "alive s"
  shows "step Call_StartAllThreads s = Some s \<and> (\<forall>a s'. step a s = Some s' \<longrightarrow> released s')"
proof -
  from assms have wf: "barrier_wf s" by (simp add: wf_reach)
  with assms have "step Call_StartAllThreads s = Some s"
    by (simp add: step_alive StartAllThreads_released)
  moreover from wf assms have "\<forall>a s'. step a s = Some s' \<longrightarrow> released s'"
    by (blast dest: step_exec intro: released_step)
  ultimately show ?thesis by blast
qed

theorem C5_witness:
  "reach (init workers False) (the (run barrier_schedule (init workers False))) \<and>
   released (the (run barrier_schedule (init workers False))) \<and>
   alive (the (run barrier_schedule (init workers False))) \<and>
   step Call_StartAllThreads (the (run barrier_schedule (init workers False))) =
     Some (the (run barrier_schedule (init workers False)))"
proof -
  let ?S = "the (run barrier_schedule (init workers False))"
  have ok: "\<not> Option.is_none (run barrier_schedule (init workers False))" by code_simp
  then have r: "reach (init workers False) ?S" by (rule run_reach_the)
  have rel: "released ?S" by code_simp
  have al: "alive ?S" by code_simp
  from C5_release_idempotent [OF r rel al] r rel al show ?thesis by blast
qed

subsection \<open>C4: ExitThread() twice\<close>

text \<open>
  C4. In every reachable state of a live process, (1) ExitThread() on an instance whose
  thread handle is invalid (never created, or already terminated) returns at once and
  leaves the whole state as it is; (2) when a call of ExitThread() executes its last
  statement, the instance is left with both handles invalid and no call in progress, and
  a second ExitThread() right after leaves that state as it is: it executes no statement
  of the body, so nothing is closed a second time.
\<close>

theorem C4_ExitThread_idempotent:
  assumes "reach (init cfg ret) s" and "alive s"
  shows "(call s tw = Idle \<and> m_hThread (objs s tw) = INVALID_HANDLE_VALUE \<longrightarrow>
            step (Call_ExitThread tw) s = Some s) \<and>
         (call s tw = E_Return \<longrightarrow>
            (\<forall>adverse. \<exists>s1. step (Owner tw adverse) s = Some s1 \<and> alive s1 \<and> call s1 tw = Idle \<and>
               m_hThread (objs s1 tw) = INVALID_HANDLE_VALUE \<and>
               m_hThreadExited (objs s1 tw) = INVALID_HANDLE_VALUE \<and>
               step (Call_ExitThread tw) s1 = Some s1 \<and>
               (\<forall>b. step (Owner tw b) s1 = None)))"
proof -
  from assms have "exit_inv s" by (simp add: exit_inv_reach)
  then have "call s tw = E_Return \<longrightarrow> m_hThread (objs s tw) = INVALID_HANDLE_VALUE"
    by (simp add: exit_inv_def)
  with assms(2) show ?thesis
    by (auto simp: step_def alive_def ExitThread_call_def CreateThread_def ExitThread_def)
qed

theorem C4_witness:
  "reach (init workers False) (the (run exit_schedule (init workers False))) \<and>
   alive (the (run exit_schedule (init workers False))) \<and>
   call (the (run exit_schedule (init workers False))) 1 = E_Return \<and>
   (\<exists>s1. step (Owner 1 False) (the (run exit_schedule (init workers False))) = Some s1 \<and>
      call s1 1 = Idle \<and> m_hThread (objs s1 1) = INVALID_HANDLE_VALUE \<and>
      m_hThreadExited (objs s1 1) = INVALID_HANDLE_VALUE \<and>
      step (Call_ExitThread 1) s1 = Some s1)"
proof -
  let ?S = "the (run exit_schedule (init workers False))"
  have ok: "\<not> Option.is_none (run exit_schedule (init workers False))" by code_simp
  then have r: "reach (init workers False) ?S" by (rule run_reach_the)
  have al: "alive ?S" by code_simp
  have c: "call ?S 1 = E_Return" by code_simp
  from C4_ExitThread_idempotent [OF r al, of 1] c
  have "\<exists>s1. step (Owner 1 False) ?S = Some s1 \<and>
      call s1 1 = Idle \<and> m_hThread (objs s1 1) = INVALID_HANDLE_VALUE \<and>
      m_hThreadExited (objs s1 1) = INVALID_HANDLE_VALUE \<and>
      step (Call_ExitThread 1) s1 = Some s1"
    by blast
  with r al c show ?thesis by blast
qed

subsection \<open>C6: the exit wait times out\<close>

text \<open>
  C6. When the wait of line 316 returns WAIT_TIMEOUT, the remaining statements of
  ExitThread() run to the end of the call: the OS thread behind the thread handle no
  longer runs, both handles are closed and invalidated in the instance, no call is in
  progress, and no fatal condition is signalled on the way, so the process stays alive.
  No statement of ExitThread() can block once MAX_WAIT_TIME has elapsed, whatever the
  state of a live process: the wait is the only statement that waits, and it is bounded.
  (Time itself is not modelled: an elapsed MAX_WAIT_TIME is the flag of the step.)
\<close>

theorem C6_exit_timeout:
  assumes "call s tw = E_Wait"
    and "WaitForSingleObject s (m_hThreadExited (objs s tw)) True = Some WAIT_TIMEOUT"
    and "alive s"
  shows "(\<exists>s'. run (timeout_tail tw) s = Some s' \<and> call s' tw = Idle \<and>
            m_hThread (objs s' tw) = INVALID_HANDLE_VALUE \<and>
            m_hThreadExited (objs s' tw) = INVALID_HANDLE_VALUE \<and>
            faults s' = faults s \<and> alive s' \<and>
            (\<forall>k. m_hThread (objs s tw) = Hnd k \<longrightarrow> handles s' k = None) \<and>
            (\<forall>k. m_hThreadExited (objs s tw) = Hnd k \<longrightarrow> handles s' k = None) \<and>
            (\<forall>k tid t'. m_hThread (objs s tw) = Hnd k \<and> handles s k = Some (ThreadObj tid) \<and>
                threads s' tid = Some t' \<longrightarrow> \<not> running t')) \<and>
         (\<forall>s0. alive s0 \<and> in_ExitThread (call s0 tw) \<longrightarrow> step (Owner tw True) s0 \<noteq> None)"
proof -
  have "\<forall>s0. alive s0 \<and> in_ExitThread (call s0 tw) \<longrightarrow> step (Owner tw True) s0 \<noteq> None"
    using ExitThread_progress by (simp add: step_alive del: exec.simps)
  moreover from assms have "\<exists>s'. run (timeout_tail tw) s = Some s' \<and> call s' tw = Idle \<and>
            m_hThread (objs s' tw) = INVALID_HANDLE_VALUE \<and>
            m_hThreadExited (objs s' tw) = INVALID_HANDLE_VALUE \<and>
            faults s' = faults s \<and> alive s' \<and>
            (\<forall>k. m_hThread (objs s tw) = Hnd k \<longrightarrow> handles s' k = None) \<and>
            (\<forall>k. m_hThreadExited (objs s tw) = Hnd k \<longrightarrow> handles s' k = None) \<and>
            (\<forall>k tid t'. m_hThread (objs s tw) = Hnd k \<and> handles s k = Some (ThreadObj tid) \<and>
                threads s' tid = Some t' \<longrightarrow> \<not> running t')"
    by (auto simp: step_def alive_def timeout_tail_def CreateThread_def ExitThread_def
        handles_CloseHandle dest: threads_TerminateThread_call)
  ultimately show ?thesis by blast
qed

theorem C6_witness:
  "call (the (run parked_exit_schedule (init workers False))) 1 = E_Wait \<and>
   WaitForSingleObject (the (run parked_exit_schedule (init workers False)))
     (m_hThreadExited (objs (the (run parked_exit_schedule (init workers False))) 1)) True =
     Some WAIT_TIMEOUT \<and>
   alive (the (run parked_exit_schedule (init workers False))) \<and>
   (\<exists>s'. run (timeout_tail 1) (the (run parked_exit_schedule (init workers False))) = Some s' \<and>
      call s' 1 = Idle \<and> m_hThread (objs s' 1) = INVALID_HANDLE_VALUE \<and>
      m_hThreadExited (objs s' 1) = INVALID_HANDLE_VALUE \<and>
      faults s' = faults (the (run parked_exit_schedule (init workers False))))"
proof -
  let ?S = "the (run parked_exit_schedule (init workers False))"
  have c: "call ?S 1 = E_Wait" by code_simp
  have w: "WaitForSingleObject ?S (m_hThreadExited (objs ?S 1)) True = Some WAIT_TIMEOUT"
    by code_simp
  have al: "alive ?S" by code_simp
  from C6_exit_timeout [OF c w al]
  have "\<exists>s'. run (timeout_tail 1) ?S = Some s' \<and>
      call s' 1 = Idle \<and> m_hThread (objs s' 1) = INVALID_HANDLE_VALUE \<and>
      m_hThreadExited (objs s' 1) = INVALID_HANDLE_VALUE \<and> faults s' = faults ?S"
    by blast
  with c w al show ?thesis by blast
qed

subsection \<open>C9: the round trip of a work item\<close>




subsection \<open>C3: what CreateThread() returns\<close>

text \<open>
  C3, as far as it holds. In a live process: (1) CreateThread() on an instance that is
  not created enters its body and has returned nothing yet. (2) When the OS fails to
  spawn the thread, line 231 signals a fatal condition; (3) at the wait of line 234 the
  caller is blocked as long as the event is neither signalled nor MAX_WAIT_TIME elapsed;
  when the wait times out, line 235 signals a fatal condition. In both cases nothing has
  been returned, and with the fault handler that aborts the process no statement is
  executed any more: the call does not return. (4) When the event is signalled and the
  thread was spawned, the call runs to its end without a fault and returns TRUE.
\<close>

theorem C3_create_outcomes:
  assumes "alive s"
  shows "(call s tw = Idle \<and> \<not> IsCreated (objs s tw) \<longrightarrow>
            (\<exists>s1. step (Call_CreateThread tw) s = Some s1 \<and> call s1 tw = C_CreateEvent \<and>
               created s1 = created s \<and> faults s1 = faults s)) \<and>
         (call s tw = C_Spawn \<longrightarrow>
            (\<exists>s1. step (Owner tw True) s = Some s1 \<and>
               faults s1 = faults s @ [F_CreateThread_spawn tw] \<and> created s1 = created s \<and>
               (\<not> fault_returns s \<longrightarrow> (\<forall>a. step a s1 = None)))) \<and>
         (call s tw = C_Wait \<longrightarrow>
            (WaitForSingleObject s (m_hThreadStarted (objs s tw)) False = None \<longrightarrow>
               step (Owner tw False) s = None) \<and>
            (WaitForSingleObject s (m_hThreadStarted (objs s tw)) True = Some WAIT_TIMEOUT \<longrightarrow>
               (\<exists>s1. step (Owner tw True) s = Some s1 \<and>
                  faults s1 = faults s @ [F_CreateThread_wait tw] \<and> created s1 = created s \<and>
                  (\<not> fault_returns s \<longrightarrow> (\<forall>a. step a s1 = None)))) \<and>
            (is_signaled s (m_hThreadStarted (objs s tw)) \<and> m_hThread (objs s tw) \<noteq> NULL_HANDLE \<longrightarrow>
               (\<forall>adverse. \<exists>s3. run [Owner tw adverse, Owner tw False, Owner tw False] s = Some s3 \<and>
                  call s3 tw = Idle \<and> created s3 tw = Some True \<and> faults s3 = faults s \<and>
                  alive s3)))"
proof -
  have 1: "call s tw = Idle \<and> \<not> IsCreated (objs s tw) \<longrightarrow>
            (\<exists>s1. step (Call_CreateThread tw) s = Some s1 \<and> call s1 tw = C_CreateEvent \<and>
               created s1 = created s \<and> faults s1 = faults s)"
    using assms by (simp add: step_def CreateThread_call_def)
  have 2: "call s tw = C_Spawn \<longrightarrow>
            (\<exists>s1. step (Owner tw True) s = Some s1 \<and>
               faults s1 = faults s @ [F_CreateThread_spawn tw] \<and> created s1 = created s \<and>
               (\<not> fault_returns s \<longrightarrow> (\<forall>a. step a s1 = None)))"
    using assms by (simp add: step_def alive_def CreateThread_def Let_def)
  have 3: "call s tw = C_Wait \<longrightarrow>
            (WaitForSingleObject s (m_hThreadStarted (objs s tw)) False = None \<longrightarrow>
               step (Owner tw False) s = None)"
    by (simp add: step_def CreateThread_def ExitThread_def)
  have 4: "call s tw = C_Wait \<longrightarrow>
            (WaitForSingleObject s (m_hThreadStarted (objs s tw)) True = Some WAIT_TIMEOUT \<longrightarrow>
               (\<exists>s1. step (Owner tw True) s = Some s1 \<and>
                  faults s1 = faults s @ [F_CreateThread_wait tw] \<and> created s1 = created s \<and>
                  (\<not> fault_returns s \<longrightarrow> (\<forall>a. step a s1 = None))))"
    using assms by (simp add: step_def alive_def CreateThread_def)
  have 5: "call s tw = C_Wait \<longrightarrow>
            (is_signaled s (m_hThreadStarted (objs s tw)) \<and> m_hThread (objs s tw) \<noteq> NULL_HANDLE \<longrightarrow>
               (\<forall>adverse. \<exists>s3. run [Owner tw adverse, Owner tw False, Owner tw False] s = Some s3 \<and>
                  call s3 tw = Idle \<and> created s3 tw = Some True \<and> faults s3 = faults s \<and>
                  alive s3))"
  proof (intro impI allI)
    fix adverse
    assume c: "call s tw = C_Wait"
      and g: "is_signaled s (m_hThreadStarted (objs s tw)) \<and> m_hThread (objs s tw) \<noteq> NULL_HANDLE"
    then have w: "WaitForSingleObject s (m_hThreadStarted (objs s tw)) adverse = Some WAIT_OBJECT_0"
      by (auto simp: WaitForSingleObject_def is_signaled_def split: option.splits)
    with c g assms
    show "\<exists>s3. run [Owner tw adverse, Owner tw False, Owner tw False] s = Some s3 \<and>
            call s3 tw = Idle \<and> created s3 tw = Some True \<and> faults s3 = faults s \<and> alive s3"
      by (simp add: step_def alive_def CreateThread_def)
  qed
  from 1 2 3 4 5 show ?thesis by blast
qed

theorem C3_witness:
  "alive (the (run (take 3 timeout_create_schedule) (init workers False))) \<and>
   call (the (run (take 3 timeout_create_schedule) (init workers False))) 1 = C_Wait \<and>
   step (Owner 1 False) (the (run (take 3 timeout_create_schedule) (init workers False))) = None \<and>
   (\<exists>s1. step (Owner 1 True) (the (run (take 3 timeout_create_schedule) (init workers False))) =
            Some s1 \<and>
      faults s1 = [F_CreateThread_wait 1] \<and> created s1 1 = None \<and> step (Owner 1 False) s1 = None) \<and>
   alive (the (run (take 6 (create_schedule 1 1)) (init workers False))) \<and>
   (\<exists>s3. run [Owner 1 False, Owner 1 False, Owner 1 False]
            (the (run (take 6 (create_schedule 1 1)) (init workers False))) = Some s3 \<and>
      call s3 1 = Idle \<and> created s3 1 = Some True \<and> faults s3 = [])"
proof -
  let ?S = "the (run (take 3 timeout_create_schedule) (init workers False))"
  let ?T = "the (run (take 6 (create_schedule 1 1)) (init workers False))"
  have al: "alive ?S" by code_simp
  have c: "call ?S 1 = C_Wait" by code_simp
  have w0: "WaitForSingleObject ?S (m_hThreadStarted (objs ?S 1)) False = None" by code_simp
  have w1: "WaitForSingleObject ?S (m_hThreadStarted (objs ?S 1)) True = Some WAIT_TIMEOUT"
    by code_simp
  have f: "faults ?S = []" "created ?S 1 = None" "\<not> fault_returns ?S" by code_simp+
  from C3_create_outcomes [OF al, of 1] c w0 w1 f
  have s: "step (Owner 1 False) ?S = None \<and>
      (\<exists>s1. step (Owner 1 True) ?S = Some s1 \<and>
         faults s1 = [F_CreateThread_wait 1] \<and> created s1 1 = None \<and> step (Owner 1 False) s1 = None)"
    by (auto simp del: exec.simps)
  have al': "alive ?T" by code_simp
  have c': "call ?T 1 = C_Wait" by code_simp
  have g: "is_signaled ?T (m_hThreadStarted (objs ?T 1))" "m_hThread (objs ?T 1) \<noteq> NULL_HANDLE"
    by code_simp+
  have f': "faults ?T = []" by code_simp
  from C3_create_outcomes [OF al', of 1] c' g f'
  have t: "\<exists>s3. run [Owner 1 False, Owner 1 False, Owner 1 False] ?T = Some s3 \<and>
      call s3 1 = Idle \<and> created s3 1 = Some True \<and> faults s3 = []"
    by (auto simp del: run.simps exec.simps)
  from al c s al' t show ?thesis by blast
qed

text \<open>
  C3 has CreateThread() return failure when the handshake wait times out. It does not.
  In the run below the thread is spawned and not scheduled within MAX_WAIT_TIME: the wait
  of line 234 times out, line 235 signals the fatal condition, nothing has been returned,
  and under the aborting fault handler no statement of the call is executed any more, so
  the call never returns. Were the fault handler to return, the call would go on to line
  240 and return TRUE.
\<close>

theorem C3_timeout_returns_no_failure:
  "call (the (run (take 3 timeout_create_schedule) (init workers False))) 1 = C_Wait \<and>
   faults (the (run (take 4 timeout_create_schedule) (init workers False))) =
     [F_CreateThread_wait 1] \<and>
   created (the (run (take 4 timeout_create_schedule) (init workers False))) 1 = None \<and>
   call (the (run (take 4 timeout_create_schedule) (init workers False))) 1 = C_Close \<and>
   \<not> alive (the (run (take 4 timeout_create_schedule) (init workers False))) \<and>
   Option.is_none (run timeout_create_schedule (init workers False)) \<and>
   created (the (run timeout_create_schedule (init workers True))) 1 = Some True"
  by code_simp

subsection \<open>C1: posting after a successful CreateThread()\<close>

text \<open>
  C1. Line 225 creates the created-signal under the fixed name ThreadCreatedEvent, so
  two CreateThread() calls in progress at the same time hold handles to one event object.
  The theorem runs two overlapping calls: thread 1 sets the event, and the CreateThread()
  of instance 2 returns TRUE without any fault although thread 2 has not yet probed its
  queue; the work item posted to instance 2 right after fails because the queue does not
  exist.
\<close>

theorem C1_post_fails_after_create:
  "map_option (\<lambda>s. (created s 2, faults s, map_option t_queue (threads s 2),
                     post_status s (m_threadId (objs s 2)), posts s))
     (run (overlap_schedule @ [Call_PostThreadMessage 2 WM_THREAD_MSG 1]) (init workers False)) =
   Some (Some True, [], Some None, POST_NO_QUEUE, [(2, work_item 1, POST_NO_QUEUE)])"
  by code_simp

subsection \<open>C8: ownership of the created-signal\<close>

text \<open>
  C8. With two CreateThread() calls in progress at the same time, after both have
  executed line 225 the two instances hold different handles to the same event object,
  which has two open handles; the event seen through the handle of instance 2 is
  signalled by thread 1 while thread 2 has not started; and when thread 2 reaches line
  273 afterwards (having read its parameter while its creator was still in the call),
  its own instance's handle is already closed and its SetEvent fails.
\<close>

theorem C8_created_event_shared:
  "map_option (\<lambda>s. (m_hThreadStarted (objs s 1), m_hThreadStarted (objs s 2),
                     event_of s (m_hThreadStarted (objs s 1)),
                     event_of s (m_hThreadStarted (objs s 2)),
                     map_option ev_refs (events s 1)))
     (run (take 4 overlap_schedule) (init workers False)) =
   Some (Hnd 1, Hnd 2, Some 1, Some 1, Some 2) \<and>
   map_option (\<lambda>s. (map_option t_pc (threads s 1), map_option t_pc (threads s 2),
                     is_signaled s (m_hThreadStarted (objs s 2))))
     (run (take 9 overlap_schedule) (init workers False)) =
   Some (Some R_Barrier, Some R_Entry, True) \<and>
   map_option faults (run late_signal_schedule (init workers False)) =
   Some [F_RunProcess_started 2]"
  by code_simp

subsection \<open>C7: the exit signal when the work loop returns early\<close>

text \<open>
  C7. The exit event is created by ExitThread() only (line 311). When the work loop
  returns before any ExitThread() was called, line 289 sets the event through
  \<^verbatim>\<open>m_hThreadExited = INVALID_HANDLE_VALUE\<close>: SetEvent fails and line 290 signals a
  fatal condition. When the fault handler returns, an ExitThread() called afterwards
  creates a fresh event that nobody will set: its wait is not released and has to time
  out. When the fault handler aborts, the same fatal condition ends the process.
\<close>

theorem C7_exit_signal_invalid:
  "map_option (\<lambda>s. (map_option t_pc (threads s 1), m_hThreadExited (objs s 1), faults s))
     (run early_return_schedule (init workers True)) =
   Some (Some R_Return, INVALID_HANDLE_VALUE, [F_RunProcess_exited 1]) \<and>
   map_option (\<lambda>s. (call s 1, is_signaled s (m_hThreadExited (objs s 1)), step (Owner 1 False) s = None))
     (run (early_return_schedule @ [Call_ExitThread 1, Owner 1 False, Owner 1 False])
        (init workers True)) =
   Some (E_Wait, False, True) \<and>
   map_option (\<lambda>s. (m_hThreadExited (objs s 1), faults s, alive s))
     (run early_return_schedule (init workers False)) =
   Some (INVALID_HANDLE_VALUE, [F_RunProcess_exited 1], False)"
  by code_simp

end
